theory Spec2Isabelle
  imports Complex_Main "HOL-Library.Multiset"
begin

section \<open>JavaScript numbers\<close>

text \<open>
  A JavaScript \<open>number\<close> is an IEEE 754 double. A finite double is modelled by
  the real number it stands for, and the three non-finite values \<open>NaN\<close>,
  \<open>Infinity\<close> and \<open>-Infinity\<close> are constructors of their own. Every arithmetic
  operation computes the exact real result and rounds it to the nearest double, a
  tie going to the even significand; a result beyond the largest double is an
  infinity. The sign of zero is outside this model.
\<close>

datatype jsnum = NaN | PInf | NInf | Fin real

text \<open>The nearest integer, a tie going to the even one.\<close>

definition rne :: "real \<Rightarrow> int" where
  "rne x =
     (let f = \<lfloor>x\<rfloor>; d = x - of_int f
      in if d < 1 / 2 then f else if 1 / 2 < d then f + 1 else if even f then f else f + 1)"

text \<open>
  The binade of a positive number \<open>a\<close>: the exponent \<open>e\<close> with
  \<open>2 powi e \<le> a < 2 powi (e + 1)\<close>, that is \<open>floor (log 2 a)\<close>, found by halving
  or doubling \<open>a\<close> until it lies between 1 and 2.
\<close>

function binade :: "real \<Rightarrow> int" where
  "binade a =
     (if 2 \<le> a then binade (a / 2) + 1
      else if 0 < a \<and> a < 1 then binade (a * 2) - 1
      else 0)"
  by pat_completeness auto
termination
proof (relation "measure (\<lambda>a. nat \<bar>\<lfloor>log 2 a\<rfloor>\<bar>)")
  show "wf (measure (\<lambda>a. nat \<bar>\<lfloor>log 2 a\<rfloor>\<bar>))" by simp
next
  fix a :: real
  assume a: "2 \<le> a"
  then have "log 2 (a / 2) = log 2 a - 1" by (simp add: log_divide)
  then have half: "\<lfloor>log 2 (a / 2)\<rfloor> = \<lfloor>log 2 a\<rfloor> - 1" by simp
  have "log 2 2 \<le> log 2 a" using a by (intro log_mono) auto
  then have "1 \<le> \<lfloor>log 2 a\<rfloor>" by (simp add: le_floor_iff)
  with half show "(a / 2, a) \<in> measure (\<lambda>a. nat \<bar>\<lfloor>log 2 a\<rfloor>\<bar>)" by simp
next
  fix a :: real
  assume a: "\<not> 2 \<le> a" "0 < a \<and> a < 1"
  then have "log 2 (a * 2) = log 2 a + 1" by (simp add: log_mult)
  then have double: "\<lfloor>log 2 (a * 2)\<rfloor> = \<lfloor>log 2 a\<rfloor> + 1" by simp
  have "log 2 a < 0" using a by simp
  then have "\<lfloor>log 2 a\<rfloor> \<le> - 1" by linarith
  with double show "(a * 2, a) \<in> measure (\<lambda>a. nat \<bar>\<lfloor>log 2 a\<rfloor>\<bar>)" by simp
qed

declare binade.simps [simp del]

text \<open>
  Rounding to a double. The exponent \<open>e\<close> is the binade of \<open>x\<close>, not below the
  smallest normal exponent; the doubles of that binade are the multiples of
  \<open>2 powi (e - 52)\<close>, and \<open>x\<close> goes to the nearest of them.
\<close>

definition round64 :: "real \<Rightarrow> jsnum" where
  "round64 x =
     (if x = 0 then Fin 0
      else
        (let e = max (binade \<bar>x\<bar>) (- 1022);
             q = 2 powi (e - 52);
             y = of_int (rne (x / q)) * q
         in if 2 ^ 1024 \<le> \<bar>y\<bar> then (if 0 < x then PInf else NInf) else Fin y))"

text \<open>Sum, product and quotient of two finite doubles, the divisor not zero.\<close>

definition add64 :: "real \<Rightarrow> real \<Rightarrow> jsnum" where
  "add64 a b = round64 (a + b)"

definition mul64 :: "real \<Rightarrow> real \<Rightarrow> jsnum" where
  "mul64 a b = round64 (a * b)"

definition div64 :: "real \<Rightarrow> real \<Rightarrow> jsnum" where
  "div64 a b = round64 (a / b)"

definition isNaN :: "jsnum \<Rightarrow> bool" where
  "isNaN x = (x = NaN)"

fun js_neg :: "jsnum \<Rightarrow> jsnum" where
  "js_neg NaN = NaN"
| "js_neg PInf = NInf"
| "js_neg NInf = PInf"
| "js_neg (Fin a) = Fin (- a)"

fun js_add :: "jsnum \<Rightarrow> jsnum \<Rightarrow> jsnum" where
  "js_add NaN _ = NaN"
| "js_add _ NaN = NaN"
| "js_add PInf NInf = NaN"
| "js_add NInf PInf = NaN"
| "js_add PInf _ = PInf"
| "js_add _ PInf = PInf"
| "js_add NInf _ = NInf"
| "js_add _ NInf = NInf"
| "js_add (Fin a) (Fin b) = add64 a b"

definition js_sub :: "jsnum \<Rightarrow> jsnum \<Rightarrow> jsnum" where
  "js_sub x y = js_add x (js_neg y)"

text \<open>The sign of an infinite product or quotient; \<open>0 * Infinity\<close> is \<open>NaN\<close>.\<close>

definition signed_inf :: "real \<Rightarrow> jsnum" where
  "signed_inf s = (if s = 0 then NaN else if 0 < s then PInf else NInf)"

fun js_mul :: "jsnum \<Rightarrow> jsnum \<Rightarrow> jsnum" where
  "js_mul NaN _ = NaN"
| "js_mul _ NaN = NaN"
| "js_mul (Fin a) (Fin b) = mul64 a b"
| "js_mul (Fin a) PInf = signed_inf a"
| "js_mul (Fin a) NInf = signed_inf (- a)"
| "js_mul PInf (Fin b) = signed_inf b"
| "js_mul NInf (Fin b) = signed_inf (- b)"
| "js_mul PInf PInf = PInf"
| "js_mul NInf NInf = PInf"
| "js_mul PInf NInf = NInf"
| "js_mul NInf PInf = NInf"

text \<open>
  Division: a finite non-zero value over zero is an infinity, \<open>0 / 0\<close> is \<open>NaN\<close>,
  a finite value over an infinity is zero.
\<close>

fun js_div :: "jsnum \<Rightarrow> jsnum \<Rightarrow> jsnum" where
  "js_div NaN _ = NaN"
| "js_div _ NaN = NaN"
| "js_div (Fin a) (Fin b) = (if b = 0 then signed_inf a else div64 a b)"
| "js_div (Fin a) _ = Fin 0"
| "js_div PInf (Fin b) = (if 0 \<le> b then PInf else NInf)"
| "js_div NInf (Fin b) = (if 0 \<le> b then NInf else PInf)"
| "js_div _ _ = NaN"

text \<open>The relational operators: every comparison with \<open>NaN\<close> is false.\<close>

fun js_lt :: "jsnum \<Rightarrow> jsnum \<Rightarrow> bool" where
  "js_lt NaN _ = False"
| "js_lt _ NaN = False"
| "js_lt (Fin a) (Fin b) = (a < b)"
| "js_lt NInf NInf = False"
| "js_lt NInf _ = True"
| "js_lt PInf _ = False"
| "js_lt (Fin a) PInf = True"
| "js_lt (Fin a) NInf = False"

definition js_gt :: "jsnum \<Rightarrow> jsnum \<Rightarrow> bool" where
  "js_gt x y = js_lt y x"

definition js_ge :: "jsnum \<Rightarrow> jsnum \<Rightarrow> bool" where
  "js_ge x y = (x \<noteq> NaN \<and> y \<noteq> NaN \<and> \<not> js_lt x y)"

text \<open>
  \<open>Math.round\<close>: the nearest integer, a tie going towards \<open>+Infinity\<close>. The
  result is exact: it is a double whenever the argument is one.
\<close>

fun Math_round :: "jsnum \<Rightarrow> jsnum" where
  "Math_round (Fin a) = Fin (of_int \<lfloor>a + 1 / 2\<rfloor>)"
| "Math_round x = x"

text \<open>\<open>Math.sqrt\<close>: the square root, rounded to a double.\<close>

fun Math_sqrt :: "jsnum \<Rightarrow> jsnum" where
  "Math_sqrt (Fin a) = (if a < 0 then NaN else round64 (sqrt a))"
| "Math_sqrt PInf = PInf"
| "Math_sqrt _ = NaN"

text \<open>\<open>Math.pow(x, 2)\<close>: the product of \<open>x\<close> with itself, rounded to a double.\<close>

fun Math_pow2 :: "jsnum \<Rightarrow> jsnum" where
  "Math_pow2 NaN = NaN"
| "Math_pow2 (Fin a) = mul64 a a"
| "Math_pow2 _ = PInf"

definition Math_min :: "jsnum \<Rightarrow> jsnum \<Rightarrow> jsnum" where
  "Math_min x y = (if x = NaN \<or> y = NaN then NaN else if js_lt y x then y else x)"

text \<open>
  The length of an array as a number: a length is below \<open>2 ^ 32\<close> and is a double
  as it is.
\<close>

definition js_of_nat :: "nat \<Rightarrow> jsnum" where
  "js_of_nat n = Fin (of_nat n)"

text \<open>
  A template literal is kept as its pieces: literal text and interpolated numbers.
  The text of a number is supplied by the renderer.
\<close>

datatype piece = Lit string | Val jsnum

type_synonym template = "piece list"

fun render_piece :: "(jsnum \<Rightarrow> string) \<Rightarrow> piece \<Rightarrow> string" where
  "render_piece sh (Lit s) = s"
| "render_piece sh (Val v) = sh v"

definition render :: "(jsnum \<Rightarrow> string) \<Rightarrow> template \<Rightarrow> string" where
  "render sh t = concat (map (render_piece sh) t)"

section \<open>FileUpload.tsx: the line parser\<close>

text \<open>
  \<open>parseCSVLine\<close> walks the line once with three variables: the fields finished so
  far, the field being read and the flag \<open>inQuotes\<close>.
\<close>

fun csv_loop :: "string list \<Rightarrow> string \<Rightarrow> bool \<Rightarrow> string \<Rightarrow> string list" where
  "csv_loop result current inQuotes [] = result @ [current]"
| "csv_loop result current inQuotes (c # cs) =
     (if c = CHR ''\"'' then csv_loop result current (\<not> inQuotes) cs
      else if c = CHR '','' \<and> \<not> inQuotes then csv_loop (result @ [current]) [] inQuotes cs
      else csv_loop result (current @ [c]) inQuotes cs)"

definition parseCSVLine :: "string \<Rightarrow> string list" where
  "parseCSVLine line = csv_loop [] [] False line"

section \<open>types.ts: the data model\<close>

text \<open>
  A diary entry after \<open>parseCSV\<close>: \<open>Rating\<close> is a number or \<open>null\<close> (\<open>None\<close>),
  an optional field that is absent is \<open>undefined\<close> (\<open>None\<close>).
\<close>

record DiaryEntry =
  Date :: string
  Name :: string
  Year :: jsnum
  LetterboxdURI :: "string option"
  Rating :: "jsnum option"
  Rewatch :: "string option"
  Tags :: "string option"
  WatchedDate :: "string option"

record MovieStats =
  totalFilms :: jsnum
  uniqueFilms :: jsnum
  totalHours :: jsnum
  avgRating :: jsnum
  rewatches :: jsnum
  rewatchPct :: jsnum

record ViewingDistribution =
  monthly :: "(int \<times> nat) list"
  weekly :: "(string \<times> nat) list"
  busiestMonth :: "string option"
  busiestDay :: "string option"

record TasteProfile =
  stabilityScore :: jsnum
  ratingVolatility :: jsnum
  isContrarian :: bool
  contrarianScore :: jsnum

text \<open>
  An archetype: the fields \<open>id\<close>, \<open>name\<close> and \<open>evidence\<close>. The fields \<open>emoji\<close>,
  \<open>tagline\<close> and \<open>description\<close> are constant text that no computation reads; they
  are left out.
\<close>

record Archetype =
  archetype_id :: string
  archetype_name :: string
  evidence :: "template list"

section \<open>The runtime: strings, arrays, objects and dates\<close>

text \<open>Characters are code units below 256; \<open>toLowerCase\<close> acts on the letters A to Z.\<close>

definition lower_char :: "char \<Rightarrow> char" where
  "lower_char c =
     (case map_of (zip ''ABCDEFGHIJKLMNOPQRSTUVWXYZ'' ''abcdefghijklmnopqrstuvwxyz'') c of
        None \<Rightarrow> c | Some d \<Rightarrow> d)"

definition toLowerCase :: "string \<Rightarrow> string" where
  "toLowerCase s = map lower_char s"

text \<open>\<open>a[i]\<close> on an array: \<open>undefined\<close> (\<open>None\<close>) out of range.\<close>

definition arr_get :: "'a list \<Rightarrow> int \<Rightarrow> 'a option" where
  "arr_get xs i = (if 0 \<le> i \<and> i < int (length xs) then Some (xs ! nat i) else None)"

text \<open>\<open>ToNumber\<close> of a rating: \<open>null\<close> counts as 0 in arithmetic.\<close>

fun num_of_rating :: "jsnum option \<Rightarrow> jsnum" where
  "num_of_rating None = Fin 0"
| "num_of_rating (Some r) = r"

text \<open>
  An object with numeric keys is an association list in insertion order.
  \<open>Object.entries\<close> lists the keys that are array indices (here: the non-negative
  ones) in ascending order first, then the other keys in insertion order.
\<close>

definition Object_entries :: "(int \<times> 'v) list \<Rightarrow> (int \<times> 'v) list" where
  "Object_entries kvs =
     sort_key fst (filter (\<lambda>kv. 0 \<le> fst kv) kvs) @ filter (\<lambda>kv. fst kv < 0) kvs"

text \<open>
  \<open>sort((a, b) => b[1] - a[1])\<close>: a stable sort by descending count.
\<close>

definition sort_desc :: "('k \<times> nat) list \<Rightarrow> ('k \<times> nat) list" where
  "sort_desc kvs = sort_key (\<lambda>kv. - int (snd kv)) kvs"

text \<open>
  A \<open>Date\<close> object is read through \<open>getFullYear\<close>, \<open>getMonth\<close> and \<open>getDay\<close> only.
  The month and the day of the week are enumerations, so that \<open>getMonth\<close> is in
  0..11 and \<open>getDay\<close> in 0..6 as the language guarantees. The constructor
  \<open>new Date(s)\<close> belongs to the runtime (its parsing and its time zone): it is a
  parameter \<open>newDate\<close>, and \<open>None\<close> stands for an invalid date, whose \<open>getTime()\<close>
  is \<open>NaN\<close>.
\<close>

datatype month_of_year =
  January | February | March | April | May | June | July | August | September
  | October | November | December

datatype day_of_week = Sun | Mon | Tue | Wed | Thu | Fri | Sat

record jsdate =
  getFullYear :: int
  month_of :: month_of_year
  weekday_of :: day_of_week

fun month_index :: "month_of_year \<Rightarrow> int" where
  "month_index January = 0"
| "month_index February = 1"
| "month_index March = 2"
| "month_index April = 3"
| "month_index May = 4"
| "month_index June = 5"
| "month_index July = 6"
| "month_index August = 7"
| "month_index September = 8"
| "month_index October = 9"
| "month_index November = 10"
| "month_index December = 11"

fun day_index :: "day_of_week \<Rightarrow> int" where
  "day_index Sun = 0"
| "day_index Mon = 1"
| "day_index Tue = 2"
| "day_index Wed = 3"
| "day_index Thu = 4"
| "day_index Fri = 5"
| "day_index Sat = 6"

definition getMonth :: "jsdate \<Rightarrow> int" where
  "getMonth d = month_index (month_of d)"

definition getDay :: "jsdate \<Rightarrow> int" where
  "getDay d = day_index (weekday_of d)"

type_synonym date_ctor = "string \<Rightarrow> jsdate option"

text \<open>
  \<open>parseFloat\<close>: leading white space is skipped, then the longest prefix that is a
  decimal literal is read (a sign, \<open>Infinity\<close>, digits with an optional fraction and an
  optional exponent); \<open>NaN\<close> when there is none. The value of the literal is
  rounded to a double.
\<close>

definition is_space :: "char \<Rightarrow> bool" where
  "is_space c = ((of_char c :: nat) \<in> {9, 10, 11, 12, 13, 32, 160})"

definition is_digit :: "char \<Rightarrow> bool" where
  "is_digit c = (48 \<le> (of_char c :: nat) \<and> (of_char c :: nat) \<le> 57)"

definition digits_val :: "string \<Rightarrow> nat" where
  "digits_val ds = foldl (\<lambda>n c. 10 * n + (of_char c - 48)) 0 ds"

text \<open>The sign of a literal: the factor and the rest of the text.\<close>

fun read_sign :: "string \<Rightarrow> real \<times> string" where
  "read_sign [] = (1, [])"
| "read_sign (c # cs) =
     (if c = CHR ''-'' then (- 1, cs) else if c = CHR ''+'' then (1, cs) else (1, c # cs))"

text \<open>The factor of an exponent part; 1 when the text does not start with one.\<close>

definition exponent_factor :: "string \<Rightarrow> real" where
  "exponent_factor s =
     (case s of
        [] \<Rightarrow> 1
      | c # cs \<Rightarrow>
          if c = CHR ''e'' \<or> c = CHR ''E'' then
            (let (sg, r) = read_sign cs; ds = takeWhile is_digit r
             in if ds = [] then 1
                else if sg < 0 then 1 / 10 ^ digits_val ds else 10 ^ digits_val ds)
          else 1)"

definition parseFloat :: "string \<Rightarrow> jsnum" where
  "parseFloat s =
     (let (sg, u) = read_sign (dropWhile is_space s)
      in if take 8 u = ''Infinity'' then (if sg < 0 then NInf else PInf)
         else
           (let ip = takeWhile is_digit u;
                r1 = dropWhile is_digit u;
                (fp, r2) = (case r1 of
                              [] \<Rightarrow> ([], r1)
                            | c # cs \<Rightarrow>
                                if c = CHR ''.''
                                then (takeWhile is_digit cs, dropWhile is_digit cs)
                                else ([], r1))
            in if ip = [] \<and> fp = [] then NaN
               else round64 (sg * (real (digits_val (ip @ fp)) / 10 ^ length fp)
                              * exponent_factor r2)))"

text \<open>
  \<open>parseInt\<close> without a radix: white space, a sign, then decimal digits, or
  hexadecimal digits after \<open>0x\<close>; \<open>NaN\<close> when no digit follows.
\<close>

definition hex_digit :: "char \<Rightarrow> nat option" where
  "hex_digit c =
     map_of (zip ''0123456789abcdefABCDEF''
                 [0, 1, 2, 3, 4, 5, 6, 7, 8, 9, 10, 11, 12, 13, 14, 15, 10, 11, 12, 13, 14, 15]) c"

definition hex_val :: "string \<Rightarrow> nat" where
  "hex_val ds = foldl (\<lambda>n c. 16 * n + (case hex_digit c of None \<Rightarrow> 0 | Some v \<Rightarrow> v)) 0 ds"

definition parseInt :: "string \<Rightarrow> jsnum" where
  "parseInt s =
     (let (sg, u) = read_sign (dropWhile is_space s)
      in if take 2 u = ''0x'' \<or> take 2 u = ''0X'' then
           (let ds = takeWhile (\<lambda>c. hex_digit c \<noteq> None) (drop 2 u)
            in if ds = [] then NaN else round64 (sg * real (hex_val ds)))
         else
           (let ds = takeWhile is_digit u
            in if ds = [] then NaN else round64 (sg * real (digits_val ds))))"

section \<open>analytics.ts\<close>

subsection \<open>parseCSV\<close>

text \<open>
  A row as the CSV library returns it with \<open>header: true\<close>: every field is text, a
  column that is missing is \<open>undefined\<close> (\<open>None\<close>). The library itself is a parameter
  \<open>papa\<close> of \<open>parseCSV\<close>, from the file's text to its rows.
\<close>

record raw_row =
  raw_Date :: string
  raw_Name :: string
  raw_Year :: "string option"
  raw_LetterboxdURI :: "string option"
  raw_Rating :: "string option"
  raw_Rewatch :: "string option"
  raw_Tags :: "string option"
  raw_WatchedDate :: "string option"

text \<open>A field is truthy when it is present and not the empty string.\<close>

fun truthy :: "string option \<Rightarrow> bool" where
  "truthy None = False"
| "truthy (Some s) = (s \<noteq> [])"

fun the_text :: "string option \<Rightarrow> string" where
  "the_text None = ''undefined''"
| "the_text (Some s) = s"

definition convert_row :: "raw_row \<Rightarrow> DiaryEntry" where
  "convert_row entry =
     \<lparr> Date = raw_Date entry,
       Name = raw_Name entry,
       Year = (if truthy (raw_Year entry) then parseInt (the_text (raw_Year entry)) else Fin 0),
       LetterboxdURI = raw_LetterboxdURI entry,
       Rating = (if truthy (raw_Rating entry)
                 then Some (parseFloat (the_text (raw_Rating entry))) else None),
       Rewatch = raw_Rewatch entry,
       Tags = raw_Tags entry,
       WatchedDate = raw_WatchedDate entry \<rparr>"

definition parseCSV :: "(string \<Rightarrow> raw_row list) \<Rightarrow> string \<Rightarrow> DiaryEntry list" where
  "parseCSV papa csvContent = map convert_row (papa csvContent)"

subsection \<open>detectTargetYear and filterByYear\<close>

text \<open>\<open>yearCounts[year] = (yearCounts[year] || 0) + 1\<close>\<close>

fun bump :: "int \<Rightarrow> (int \<times> nat) list \<Rightarrow> (int \<times> nat) list" where
  "bump y [] = [(y, 1)]"
| "bump y (kv # kvs) = (if fst kv = y then (fst kv, snd kv + 1) # kvs else kv # bump y kvs)"

definition count_year :: "date_ctor \<Rightarrow> (int \<times> nat) list \<Rightarrow> DiaryEntry \<Rightarrow> (int \<times> nat) list" where
  "count_year newDate yearCounts entry =
     (case newDate (Date entry) of
        None \<Rightarrow> yearCounts
      | Some date \<Rightarrow> bump (getFullYear date) yearCounts)"

text \<open>
  \<open>thisYear\<close> is \<open>new Date().getFullYear()\<close>, the year of the system clock. The
  keys of \<open>yearCounts\<close> are kept as the years they are the text of, so \<open>parseInt\<close> of
  the first key is that key.
\<close>

definition detectTargetYear :: "date_ctor \<Rightarrow> int \<Rightarrow> DiaryEntry list \<Rightarrow> int" where
  "detectTargetYear newDate thisYear entries =
     (let yearCounts = foldl (count_year newDate) [] entries;
          years = Object_entries yearCounts
      in if length years = 0 then thisYear
         else fst (hd (sort_desc years)))"

definition in_year :: "date_ctor \<Rightarrow> int \<Rightarrow> DiaryEntry \<Rightarrow> bool" where
  "in_year newDate year entry =
     (case newDate (Date entry) of None \<Rightarrow> False | Some date \<Rightarrow> getFullYear date = year)"

definition filterByYear :: "date_ctor \<Rightarrow> DiaryEntry list \<Rightarrow> int \<Rightarrow> DiaryEntry list" where
  "filterByYear newDate entries year = filter (in_year newDate year) entries"

subsection \<open>calculateStats\<close>

definition is_rewatch :: "DiaryEntry \<Rightarrow> bool" where
  "is_rewatch e = (map_option toLowerCase (Rewatch e) = Some ''yes'')"

text \<open>\<open>e.Rating !== null && !isNaN(e.Rating!)\<close>\<close>

definition is_rated :: "DiaryEntry \<Rightarrow> bool" where
  "is_rated e = (case Rating e of None \<Rightarrow> False | Some r \<Rightarrow> \<not> isNaN r)"

definition calculateStats :: "DiaryEntry list \<Rightarrow> MovieStats" where
  "calculateStats entries =
     (let totalFilms = length entries;
          uniqueFilms = card (set (map Name entries));
          rewatches = length (filter is_rewatch entries);
          ratedFilms = filter is_rated entries;
          avgRating =
            (if length ratedFilms > 0
             then js_div
                    (Math_round
                       (js_mul
                          (js_div
                             (foldl (\<lambda>sum e. js_add sum (num_of_rating (Rating e))) (Fin 0)
                                ratedFilms)
                             (js_of_nat (length ratedFilms)))
                          (Fin 100)))
                    (Fin 100)
             else Fin 0);
          totalHours = Math_round (js_mul (js_of_nat totalFilms) (Fin 2))
      in \<lparr> totalFilms = js_of_nat totalFilms,
           uniqueFilms = js_of_nat uniqueFilms,
           totalHours = totalHours,
           avgRating = avgRating,
           rewatches = js_of_nat rewatches,
           rewatchPct =
             (if totalFilms > 0
              then Math_round
                     (js_mul (js_div (js_of_nat rewatches) (js_of_nat totalFilms)) (Fin 100))
              else Fin 0) \<rparr>)"

subsection \<open>calculateDistribution\<close>

definition monthNames :: "string list" where
  "monthNames = [''Jan'', ''Feb'', ''Mar'', ''Apr'', ''May'', ''Jun'', ''Jul'', ''Aug'',
                 ''Sep'', ''Oct'', ''Nov'', ''Dec'']"

definition dayNames :: "string list" where
  "dayNames = [''Sunday'', ''Monday'', ''Tuesday'', ''Wednesday'', ''Thursday'', ''Friday'',
               ''Saturday'']"

text \<open>
  \<open>counts[key]++\<close> on a key that the object has. The keys of \<open>monthly\<close> are 1..12 and
  those of \<open>weekly\<close> the seven day names, and \<open>getMonth() + 1\<close> and
  \<open>dayNames[getDay()]\<close> are always among them, so no other key is ever written.
\<close>

definition incr :: "'k \<Rightarrow> ('k \<times> nat) list \<Rightarrow> ('k \<times> nat) list" where
  "incr key counts = map (\<lambda>kv. if fst kv = key then (fst kv, snd kv + 1) else kv) counts"

definition count_entry ::
  "date_ctor \<Rightarrow> (int \<times> nat) list \<times> (string \<times> nat) list \<Rightarrow> DiaryEntry
     \<Rightarrow> (int \<times> nat) list \<times> (string \<times> nat) list" where
  "count_entry newDate mw entry =
     (case newDate (Date entry) of
        None \<Rightarrow> mw
      | Some date \<Rightarrow>
          (let month = getMonth date + 1;
               dayOfWeek = arr_get dayNames (getDay date)
           in (incr month (fst mw),
               (case dayOfWeek of None \<Rightarrow> snd mw | Some day \<Rightarrow> incr day (snd mw)))))"

definition calculateDistribution :: "date_ctor \<Rightarrow> DiaryEntry list \<Rightarrow> ViewingDistribution" where
  "calculateDistribution newDate entries =
     (let weekly0 = map (\<lambda>day. (day, 0)) dayNames;
          monthly0 = map (\<lambda>i. (i, 0)) [1..12];
          (monthly, weekly) = foldl (count_entry newDate) (monthly0, weekly0) entries;
          busiestMonthNum = (case sort_desc (Object_entries monthly) of
                               [] \<Rightarrow> None | kv # _ \<Rightarrow> Some kv);
          busiestDayEntry = (case sort_desc weekly of [] \<Rightarrow> None | kv # _ \<Rightarrow> Some kv)
      in \<lparr> monthly = monthly,
           weekly = weekly,
           busiestMonth = (case busiestMonthNum of
                             None \<Rightarrow> None
                           | Some kv \<Rightarrow> arr_get monthNames (fst kv - 1)),
           busiestDay = (case busiestDayEntry of None \<Rightarrow> None | Some kv \<Rightarrow> Some (fst kv)) \<rparr>)"

subsection \<open>calculateTasteProfile\<close>

text \<open>
  A decimal literal of the source is the double nearest to it: \<open>0.5\<close>, \<open>2.5\<close>,
  \<open>3.5\<close> and the whole numbers are doubles as they are, \<open>0.6\<close> and \<open>0.3\<close> are
  not and are rounded.
\<close>

definition calculateTasteProfile :: "DiaryEntry list \<Rightarrow> TasteProfile" where
  "calculateTasteProfile entries =
     (let ratedFilms = filter (\<lambda>e. Rating e \<noteq> None) entries
      in if length ratedFilms < 5
         then \<lparr> stabilityScore = Fin 50, ratingVolatility = Fin 0.5, isContrarian = False,
                contrarianScore = Fin 0 \<rparr>
         else
           (let ratings = map (\<lambda>e. num_of_rating (Rating e)) ratedFilms;
                mean = js_div (foldl (\<lambda>a b. js_add a b) (Fin 0) ratings)
                         (js_of_nat (length ratings));
                variance = js_div
                             (foldl (\<lambda>sum r. js_add sum (Math_pow2 (js_sub r mean))) (Fin 0)
                                ratings)
                             (js_of_nat (length ratings));
                stdDev = Math_sqrt variance;
                ratingVolatility = Math_min (js_div stdDev (Fin 2.5)) (Fin 1);
                stabilityScore = Math_round (js_mul (js_sub (Fin 1) ratingVolatility) (Fin 100))
            in \<lparr> stabilityScore = stabilityScore,
                 ratingVolatility = js_div (Math_round (js_mul ratingVolatility (Fin 100)))
                                      (Fin 100),
                 isContrarian = (js_lt mean (Fin 3.5) \<or> js_gt ratingVolatility (round64 0.6)),
                 contrarianScore =
                   Math_round (js_mul (js_sub (Fin 1) (js_div mean (Fin 5))) (Fin 100)) \<rparr>))"

subsection \<open>classifyArchetype\<close>

definition rewatchRatio :: "MovieStats \<Rightarrow> jsnum" where
  "rewatchRatio stats = js_div (rewatches stats) (totalFilms stats)"

text \<open>The array \<open>archetypes\<close>, built before the selection.\<close>

definition archetypes :: "MovieStats \<Rightarrow> TasteProfile \<Rightarrow> Archetype list" where
  "archetypes stats tasteProfile =
     [ \<lparr> archetype_id = ''marathoner'', archetype_name = ''The Marathoner'',
         evidence = [[Val (totalFilms stats), Lit '' films watched''],
                     [Val (totalHours stats), Lit '' hours of your life''],
                     [Lit ''No breaks. No mercy.'']] \<rparr>,
       \<lparr> archetype_id = ''comfort-rewinder'', archetype_name = ''The Comfort Rewinder'',
         evidence = [[Val (rewatches stats), Lit '' rewatches''],
                     [Val (Math_round (js_mul (rewatchRatio stats) (Fin 100))),
                      Lit ''% rewatch rate''],
                     [Lit ''Comfort over curiosity'']] \<rparr>,
       \<lparr> archetype_id = ''chaos-curator'', archetype_name = ''The Chaos Curator'',
         evidence = [[Lit ''Volatility: '', Val (ratingVolatility tasteProfile)],
                     [Lit ''Wildly inconsistent ratings''],
                     [Lit ''Genre? Never heard of her.'']] \<rparr>,
       \<lparr> archetype_id = ''prestige-purist'', archetype_name = ''The Prestige Purist'',
         evidence = [[Lit ''Avg rating: '', Val (avgRating stats),
                      Lit [CHR 0xE2, CHR 0xAD, CHR 0x90]],
                     [Lit ''High bar, few disappointments''],
                     [Lit ''Quality over quantity'']] \<rparr>,
       \<lparr> archetype_id = ''emotional-explorer'', archetype_name = ''The Emotional Explorer'',
         evidence = [[Lit ''Drawn to emotional weight''],
                     [Lit ''Heavy dramas dominate''],
                     [Lit ''You watch to process'']] \<rparr> ]"

definition classifyArchetype :: "DiaryEntry list \<Rightarrow> MovieStats \<Rightarrow> Archetype" where
  "classifyArchetype entries stats =
     (let tasteProfile = calculateTasteProfile entries;
          as = archetypes stats tasteProfile
      in if js_ge (totalFilms stats) (Fin 100) then as ! 0
         else if js_ge (rewatchRatio stats) (round64 0.3) then as ! 1
         else if js_gt (ratingVolatility tasteProfile) (Fin 0.5) then as ! 2
         else if js_ge (avgRating stats) (Fin 4.0) then as ! 3
         else as ! 4)"

subsection \<open>The analysis run of the page\<close>

text \<open>
  \<open>handleFileSelect\<close> up to the call of \<open>classifyArchetype\<close>: a thrown \<open>Error\<close> is
  \<open>Inl\<close> of its message. The rest of the function (the list of highly rated films,
  the poster and persona requests) runs only after these checks and is not part of
  the model.
\<close>

record analysis =
  an_entries :: "DiaryEntry list"
  an_year :: int
  an_stats :: MovieStats
  an_distribution :: ViewingDistribution
  an_archetype :: Archetype

definition handleFileSelect ::
  "(string \<Rightarrow> raw_row list) \<Rightarrow> date_ctor \<Rightarrow> int \<Rightarrow> string \<Rightarrow> template + analysis" where
  "handleFileSelect papa newDate thisYear diaryContent =
     (let entries = parseCSV papa diaryContent
      in if length entries = 0 then Inl [Lit ''No entries found'']
         else
           (let year = detectTargetYear newDate thisYear entries;
                filtered = filterByYear newDate entries year
            in if length filtered < 5
               then Inl [Lit ''Only '', Val (js_of_nat (length filtered)),
                         Lit '' films found for '', Val (Fin (of_int year))]
               else
                 (let stats = calculateStats filtered;
                      distribution = calculateDistribution newDate filtered;
                      archetype = classifyArchetype filtered stats
                  in Inr \<lparr> an_entries = filtered, an_year = year, an_stats = stats,
                           an_distribution = distribution, an_archetype = archetype \<rparr>)))"

section \<open>Notions used in the statements\<close>

text \<open>The year an entry's date parses to, if it parses.\<close>

definition year_of :: "date_ctor \<Rightarrow> DiaryEntry \<Rightarrow> int option" where
  "year_of newDate e = map_option getFullYear (newDate (Date e))"

text \<open>The count stored under a key of a counting object, 0 for a key it does not have.\<close>

definition count_of :: "(int \<times> nat) list \<Rightarrow> int \<Rightarrow> nat" where
  "count_of kvs y = (case map_of kvs y of None \<Rightarrow> 0 | Some c \<Rightarrow> c)"

text \<open>The ratings of the entries that have one: neither \<open>null\<close> nor \<open>NaN\<close>.\<close>

fun rated_values :: "DiaryEntry list \<Rightarrow> jsnum list" where
  "rated_values [] = []"
| "rated_values (e # es) =
     (case Rating e of
        None \<Rightarrow> rated_values es
      | Some r \<Rightarrow> if r = NaN then rated_values es else r # rated_values es)"

text \<open>The real value of a finite number, and the exact mean of real values.\<close>

fun fin_val :: "jsnum \<Rightarrow> real" where
  "fin_val (Fin a) = a"
| "fin_val _ = 0"

definition mean :: "real list \<Rightarrow> real" where
  "mean xs = sum_list xs / real (length xs)"

text \<open>
  A rating on the half-star scale: a multiple of one half, from 0 to 5 in size.
\<close>

fun half_step :: "jsnum \<Rightarrow> bool" where
  "half_step (Fin a) = (\<bar>a\<bar> \<le> 5 \<and> of_int \<lfloor>2 * a\<rfloor> = 2 * a)"
| "half_step _ = False"

section \<open>Sample data\<close>

text \<open>A date constructor that knows two Saturdays, and entries and rows to run on.\<close>

definition sample_newDate :: date_ctor where
  "sample_newDate s =
     (if s = ''2023-11-04''
      then Some \<lparr> getFullYear = 2023, month_of = November, weekday_of = Sat \<rparr>
      else if s = ''2024-03-09''
      then Some \<lparr> getFullYear = 2024, month_of = March, weekday_of = Sat \<rparr>
      else None)"

definition sample_entry :: "string \<Rightarrow> string \<Rightarrow> jsnum option \<Rightarrow> DiaryEntry" where
  "sample_entry date name rating =
     \<lparr> Date = date, Name = name, Year = Fin 1995, LetterboxdURI = None, Rating = rating,
       Rewatch = None, Tags = None, WatchedDate = None \<rparr>"

definition sample_row :: "string option \<Rightarrow> string option \<Rightarrow> raw_row" where
  "sample_row rating year =
     \<lparr> raw_Date = ''2024-03-09'', raw_Name = ''Heat'', raw_Year = year,
       raw_LetterboxdURI = None, raw_Rating = rating, raw_Rewatch = None, raw_Tags = None,
       raw_WatchedDate = None \<rparr>"

text \<open>Seven entries of 2023 and nine of 2024, mixed, and one whose date does not parse.\<close>

definition two_years :: "DiaryEntry list" where
  "two_years =
     [sample_entry ''2023-11-04'' ''a1'' None, sample_entry ''2024-03-09'' ''b1'' None,
      sample_entry ''2024-03-09'' ''b2'' None, sample_entry ''2023-11-04'' ''a2'' None,
      sample_entry ''2023-11-04'' ''a3'' None, sample_entry ''2024-03-09'' ''b3'' None,
      sample_entry ''2024-03-09'' ''b4'' None, sample_entry ''2024-03-09'' ''b5'' None,
      sample_entry ''2023-11-04'' ''a4'' None, sample_entry ''2023-11-04'' ''a5'' None,
      sample_entry ''2024-03-09'' ''b6'' None, sample_entry ''2023-11-04'' ''a6'' None,
      sample_entry ''2024-03-09'' ''b7'' None, sample_entry ''2024-03-09'' ''b8'' None,
      sample_entry ''2023-11-04'' ''a7'' None, sample_entry ''2024-03-09'' ''b9'' None,
      sample_entry ''not a date'' ''c1'' None]"

text \<open>Four ratings that count for the average, one \<open>null\<close> and one \<open>NaN\<close>.\<close>

definition rated_sample :: "DiaryEntry list" where
  "rated_sample =
     [sample_entry ''2024-03-09'' ''a'' (Some (Fin 0.5)), sample_entry ''2024-03-09'' ''b'' None,
      sample_entry ''2024-03-09'' ''c'' (Some (Fin 0.5)),
      sample_entry ''2024-03-09'' ''d'' (Some NaN),
      sample_entry ''2024-03-09'' ''e'' (Some (Fin 0.5)),
      sample_entry ''2024-03-09'' ''f'' (Some (Fin 1))]"

text \<open>Five entries, four of them with a rating.\<close>

definition few_rated :: "DiaryEntry list" where
  "few_rated =
     [sample_entry ''2024-03-09'' ''a'' (Some (Fin 4)), sample_entry ''2024-03-09'' ''b'' None,
      sample_entry ''2024-03-09'' ''c'' (Some (Fin 5)),
      sample_entry ''2024-03-09'' ''d'' (Some (Fin 3)),
      sample_entry ''2024-03-09'' ''e'' (Some (Fin 4.5))]"



text \<open>
  The ratings 0.1, 0.1, 0.1, 0.6 as \<open>parseFloat\<close> returns them, and the same entries
  in another order.
\<close>

definition tenths :: "DiaryEntry list" where
  "tenths =
     [sample_entry ''2024-03-09'' ''a'' (Some (round64 0.1)),
      sample_entry ''2024-03-09'' ''a'' (Some (round64 0.1)),
      sample_entry ''2024-03-09'' ''a'' (Some (round64 0.1)),
      sample_entry ''2024-03-09'' ''a'' (Some (round64 0.6))]"

definition tenths_permuted :: "DiaryEntry list" where
  "tenths_permuted =
     [sample_entry ''2024-03-09'' ''a'' (Some (round64 0.1)),
      sample_entry ''2024-03-09'' ''a'' (Some (round64 0.6)),
      sample_entry ''2024-03-09'' ''a'' (Some (round64 0.1)),
      sample_entry ''2024-03-09'' ''a'' (Some (round64 0.1))]"

text \<open>Eight ratings with the exact mean 2.125.\<close>

definition score_sample :: "DiaryEntry list" where
  "score_sample =
     replicate 5 (sample_entry ''2024-03-09'' ''a'' (Some (Fin 0.5)))
       @ [sample_entry ''2024-03-09'' ''b'' (Some (Fin 4.5)),
          sample_entry ''2024-03-09'' ''c'' (Some (Fin 5)),
          sample_entry ''2024-03-09'' ''d'' (Some (Fin 5))]"

text \<open>Five rows of one year: four rated 4 and one whose rating field is \<open>abc\<close>.\<close>

definition nan_rows :: "raw_row list" where
  "nan_rows =
     [sample_row (Some ''4'') None, sample_row (Some ''4'') None, sample_row (Some ''4'') None,
      sample_row (Some ''4'') None, sample_row (Some ''abc'') None]"

section \<open>Rounding to a double\<close>

lemma round64_0 [simp]: "round64 0 = Fin 0"
  by (simp add: round64_def)

lemma rne_of_int [simp]: "rne (of_int m) = m"
  by (simp add: rne_def)

lemma rne_bounds: "\<lfloor>x\<rfloor> \<le> rne x \<and> rne x \<le> \<lceil>x\<rceil>"
proof -
  have "x \<noteq> of_int \<lfloor>x\<rfloor> \<Longrightarrow> \<lfloor>x\<rfloor> + 1 \<le> \<lceil>x\<rceil>"
    by (metis ceiling_altdef add.commute order_refl)
  moreover have "x = of_int \<lfloor>x\<rfloor> \<Longrightarrow> rne x = \<lfloor>x\<rfloor>"
    by (metis rne_of_int)
  ultimately show ?thesis
    by (cases "x = of_int \<lfloor>x\<rfloor>") (auto simp: rne_def Let_def)
qed

lemma rne_abs_le: "\<bar>x\<bar> \<le> of_int N \<Longrightarrow> \<bar>rne x\<bar> \<le> N"
proof -
  assume "\<bar>x\<bar> \<le> of_int N"
  then have "- of_int N \<le> x" "x \<le> of_int N" by auto
  then have "- N \<le> \<lfloor>x\<rfloor>" "\<lceil>x\<rceil> \<le> N"
    by (simp_all add: le_floor_iff ceiling_le_iff)
  with rne_bounds [of x] show ?thesis by auto
qed

lemma pw2: "(2::real) powr real_of_int k = 2 powi k"
  by (simp add: powr_real_of_int')

lemma pw2_add: "(2::real) powi a * 2 powi b = 2 powi (a + b)"
  by (rule power_int_add [symmetric]) simp

text \<open>The binade is the floor of the logarithm to the base 2.\<close>

lemma binade_floor_log: "0 < a \<Longrightarrow> binade a = \<lfloor>log 2 a\<rfloor>"
proof (induction a rule: binade.induct)
  case (1 a)
  show ?case
  proof (cases "2 \<le> a")
    case True
    then have "binade (a / 2) = \<lfloor>log 2 (a / 2)\<rfloor>" using 1 by simp
    moreover have "log 2 (a / 2) = log 2 a - 1" using 1(3) by (simp add: log_divide)
    ultimately show ?thesis
      using True by (subst binade.simps) simp
  next
    case False
    show ?thesis
    proof (cases "a < 1")
      case True
      then have "binade (a * 2) = \<lfloor>log 2 (a * 2)\<rfloor>" using 1 False by simp
      moreover have "log 2 (a * 2) = log 2 a + 1" using 1(3) by (simp add: log_mult)
      ultimately show ?thesis
        using True False 1(3) by (subst binade.simps) simp
    next
      case ge: False
      have "0 \<le> log 2 a" using ge by simp
      moreover have "log 2 a < log 2 2" using False 1(3) by (intro log_less) auto
      ultimately have "\<lfloor>log 2 a\<rfloor> = 0" by (simp add: floor_eq_iff)
      then show ?thesis
        using ge False by (subst binade.simps) simp
    qed
  qed
qed

lemma floor_log2_eq:
  assumes "2 powi e \<le> \<bar>x\<bar>" "\<bar>x\<bar> < 2 powi (e + 1)"
  shows "binade \<bar>x\<bar> = e"
proof -
  have "0 < (2::real) powi e" by simp
  then have pos: "0 < \<bar>x\<bar>" using assms(1) by linarith
  have "2 powr real_of_int e \<le> \<bar>x\<bar> \<and> \<bar>x\<bar> < 2 powr real_of_int (e + 1)"
    using assms by (simp only: pw2)
  then have "\<lfloor>log 2 \<bar>x\<bar>\<rfloor> = e"
    using pos floor_log_eq_powr_iff [of "\<bar>x\<bar>" 2 e] by simp
  then show ?thesis
    using pos by (simp only: binade_floor_log)
qed

text \<open>
  Rounding a number of a known binade: with \<open>2 powi e \<le> \<bar>x\<bar> < 2 powi (e + 1)\<close> the
  result is the multiple of \<open>2 powi (e - 52)\<close> nearest to \<open>x\<close>, and it is finite.
\<close>

lemma round64_eval:
  assumes lo: "2 powi e \<le> \<bar>x\<bar>" and hi: "\<bar>x\<bar> < 2 powi (e + 1)"
    and e: "- 1022 \<le> e" "e \<le> 1022"
    and m: "rne (x * 2 powi (52 - e)) = m"
  shows "round64 x = Fin (of_int m * 2 powi (e - 52))"
proof -
  have "0 < (2::real) powi e" by simp
  then have "0 < \<bar>x\<bar>" using lo by linarith
  then have nz: "x \<noteq> 0" by simp
  have ex: "max (binade \<bar>x\<bar>) (- 1022) = e"
    using floor_log2_eq [OF lo hi] e by simp
  have q: "x / 2 powi (e - 52) = x * 2 powi (52 - e)"
    by (simp add: power_int_diff field_simps)
  have "\<bar>x * 2 powi (52 - e)\<bar> = \<bar>x\<bar> * 2 powi (52 - e)"
    by (simp add: abs_mult)
  also have "\<dots> \<le> 2 powi (e + 1) * 2 powi (52 - e)"
    using hi by (intro mult_right_mono) auto
  also have "\<dots> = 2 powi 53"
    by (simp only: pw2_add) simp
  finally have "\<bar>x * 2 powi (52 - e)\<bar> \<le> of_int (2 ^ 53)" by simp
  then have mb: "\<bar>m\<bar> \<le> 2 ^ 53" using rne_abs_le m by blast
  have "\<bar>real_of_int m * 2 powi (e - 52)\<bar> = real_of_int \<bar>m\<bar> * 2 powi (e - 52)"
    by (simp add: abs_mult)
  also have "\<dots> \<le> 2 powi 53 * 2 powi (e - 52)"
  proof (intro mult_right_mono)
    have "real_of_int \<bar>m\<bar> \<le> real_of_int (2 ^ 53)" using mb by (simp only: of_int_le_iff)
    then show "real_of_int \<bar>m\<bar> \<le> 2 powi 53" by simp
  qed auto
  also have "\<dots> = 2 powi (e + 1)"
    by (simp only: pw2_add) (simp add: add.commute)
  also have "\<dots> \<le> 2 powi 1023"
    using e by (intro power_int_increasing) auto
  also have "\<dots> < 2 ^ 1024" by simp
  finally have no: "\<not> 2 ^ 1024 \<le> \<bar>real_of_int m * 2 powi (e - 52)\<bar>"
    by (simp only: not_le)
  show ?thesis
    using nz no by (simp add: round64_def ex q m Let_def)
qed

text \<open>A multiple of one half below \<open>2 ^ 52\<close> in size is a double: rounding keeps it.\<close>

lemma round64_half_int:
  assumes "\<bar>k\<bar> < 2 ^ 53"
  shows "round64 (of_int k / 2) = Fin (of_int k / 2)"
proof (cases "k = 0")
  case True
  then show ?thesis by simp
next
  case False
  define x :: real where "x = of_int k / 2"
  define e where "e = \<lfloor>log 2 \<bar>x\<bar>\<rfloor>"
  have pos: "0 < \<bar>x\<bar>" using False by (simp add: x_def)
  have "2 powr real_of_int e \<le> \<bar>x\<bar> \<and> \<bar>x\<bar> < 2 powr real_of_int (e + 1)"
    using pos floor_log_eq_powr_iff [of "\<bar>x\<bar>" 2 e] by (simp add: e_def)
  then have lo: "2 powi e \<le> \<bar>x\<bar>" and hi: "\<bar>x\<bar> < 2 powi (e + 1)"
    by (simp_all only: pw2)
  have "1 \<le> \<bar>k\<bar>" using False by auto
  then have "1 \<le> real_of_int \<bar>k\<bar>" by (simp only: of_int_1_le_iff)
  then have ge: "1 / 2 \<le> \<bar>x\<bar>" by (simp add: x_def)
  have "real_of_int \<bar>k\<bar> < real_of_int (2 ^ 53)" using assms by (simp only: of_int_less_iff)
  then have lt: "\<bar>x\<bar> < 2 ^ 52" by (simp add: x_def)
  have e_lo: "- 1 \<le> e"
  proof (rule ccontr)
    assume "\<not> - 1 \<le> e"
    then have "e + 1 \<le> - 1" by simp
    then have "(2::real) powi (e + 1) \<le> 2 powi (- 1)" by (intro power_int_increasing) auto
    with hi ge show False by simp
  qed
  have e_hi: "e \<le> 51"
  proof (rule ccontr)
    assume "\<not> e \<le> 51"
    then have "52 \<le> e" by simp
    then have "(2::real) powi 52 \<le> 2 powi e" by (intro power_int_increasing) auto
    with lo lt show False by simp
  qed
  define n where "n = nat (51 - e)"
  have n: "52 - e = int (Suc n)" using e_hi by (simp add: n_def)
  have p1: "(2::real) powi (52 - e) = 2 ^ Suc n"
    by (simp only: n power_int_of_nat)
  have "x * 2 powi (52 - e) = of_int (k * 2 ^ n)"
    by (simp add: p1 x_def)
  then have m: "rne (x * 2 powi (52 - e)) = k * 2 ^ n" by (simp only: rne_of_int)
  have "e - 52 = - int (Suc n)" using n by simp
  then have p2: "(2::real) powi (e - 52) = inverse (2 ^ Suc n)"
    by (simp only: power_int_minus power_int_of_nat)
  have "of_int (k * 2 ^ n) * 2 powi (e - 52) = x"
    by (simp add: x_def p2 field_simps)
  then show ?thesis
    using round64_eval [OF lo hi _ _ m] e_lo e_hi by (simp add: x_def)
qed

lemma rne_abs_ge: "of_int N \<le> \<bar>x\<bar> \<Longrightarrow> N \<le> \<bar>rne x\<bar>"
proof -
  assume h: "of_int N \<le> \<bar>x\<bar>"
  show ?thesis
  proof (cases "0 \<le> x")
    case True
    with h have "of_int N \<le> x" by simp
    then have "N \<le> \<lfloor>x\<rfloor>" by (simp add: le_floor_iff)
    with rne_bounds [of x] show ?thesis by auto
  next
    case False
    with h have "x \<le> of_int (- N)" by simp
    then have "\<lceil>x\<rceil> \<le> - N" by (simp only: ceiling_le_iff)
    with rne_bounds [of x] show ?thesis by auto
  qed
qed

text \<open>A number of size \<open>2 ^ 1024\<close> or more is beyond the doubles: it rounds to an infinity.\<close>

lemma round64_overflow:
  assumes big: "2 ^ 1024 \<le> \<bar>x\<bar>"
  shows "round64 x = (if 0 < x then PInf else NInf)"
proof -
  define e where "e = \<lfloor>log 2 \<bar>x\<bar>\<rfloor>"
  have "0 < (2::real) ^ 1024" by simp
  then have pos: "0 < \<bar>x\<bar>" using big by linarith
  then have nz: "x \<noteq> 0" by simp
  have "2 powr real_of_int e \<le> \<bar>x\<bar> \<and> \<bar>x\<bar> < 2 powr real_of_int (e + 1)"
    using pos floor_log_eq_powr_iff [of "\<bar>x\<bar>" 2 e] by (simp add: e_def)
  then have lo: "2 powi e \<le> \<bar>x\<bar>" and hi: "\<bar>x\<bar> < 2 powi (e + 1)"
    by (simp_all only: pw2)
  have e_big: "1024 \<le> e"
  proof (rule ccontr)
    assume "\<not> 1024 \<le> e"
    then have "e + 1 \<le> 1024" by simp
    then have "(2::real) powi (e + 1) \<le> 2 powi 1024" by (intro power_int_increasing) auto
    with hi big show False by simp
  qed
  then have ex: "max e (- 1022) = e" by simp
  have be: "binade \<bar>x\<bar> = e" using pos by (simp only: binade_floor_log e_def)
  define q :: real where "q = 2 powi (e - 52)"
  have qpos: "0 < q" by (simp add: q_def)
  have "(2::real) powi 52 * q = 2 powi e"
    unfolding q_def by (simp only: pw2_add) simp
  then have "real_of_int (2 ^ 52) * q \<le> \<bar>x\<bar>" using lo by simp
  then have "real_of_int (2 ^ 52) \<le> \<bar>x\<bar> / q" using qpos by (simp add: pos_le_divide_eq)
  then have "real_of_int (2 ^ 52) \<le> \<bar>x / q\<bar>" using qpos by simp
  then have "2 ^ 52 \<le> \<bar>rne (x / q)\<bar>" by (rule rne_abs_ge)
  then have "real_of_int (2 ^ 52) \<le> real_of_int \<bar>rne (x / q)\<bar>" by (simp only: of_int_le_iff)
  then have "real_of_int (2 ^ 52) * q \<le> real_of_int \<bar>rne (x / q)\<bar> * q"
    using qpos by (intro mult_right_mono) simp_all
  also have "\<dots> = \<bar>real_of_int (rne (x / q)) * q\<bar>"
    using qpos by (simp add: abs_mult)
  finally have "2 powi e \<le> \<bar>real_of_int (rne (x / q)) * q\<bar>"
    using \<open>(2::real) powi 52 * q = 2 powi e\<close> by simp
  moreover have "(2::real) powi 1024 \<le> 2 powi e"
    using e_big by (intro power_int_increasing) auto
  ultimately have "2 ^ 1024 \<le> \<bar>real_of_int (rne (x / q)) * q\<bar>" by simp
  then show ?thesis
    using nz by (simp add: round64_def be ex q_def [symmetric] Let_def)
qed

text \<open>The roundings that the sample runs below need, each from \<open>round64_eval\<close>.\<close>

lemma lit_3_10: "round64 (3 / 10) = Fin (5404319552844595 / 18014398509481984)"
  using round64_eval [of "- 2" "3 / 10" 5404319552844595]
  by (simp add: rne_def)

lemma lit_6_10: "round64 (3 / 5) = Fin (5404319552844595 / 9007199254740992)"
  using round64_eval [of "- 1" "3 / 5" 5404319552844595]
  by (simp add: rne_def)

lemma lit_1_10: "round64 (1 / 10) = Fin (3602879701896397 / 36028797018963968)"
  using round64_eval [of "- 4" "1 / 10" 7205759403792794]
  by (simp add: rne_def)

lemma div_75_150: "div64 75 150 = Fin (1 / 2)"
  using round64_eval [of "- 1" "75 / 150" 4503599627370496]
  by (simp add: div64_def rne_def)

lemma div_4_10: "div64 4 10 = Fin (3602879701896397 / 9007199254740992)"
  using round64_eval [of "- 2" "4 / 10" 7205759403792794]
  by (simp add: div64_def rne_def)







lemma div_63_100: "div64 63 100 = Fin (5674535530486825 / 9007199254740992)"
  using round64_eval [of "- 1" "63 / 100" 5674535530486825]
  by (simp add: div64_def rne_def)



lemma c9a_sum1: "add64 0 (3602879701896397 / 36028797018963968) = Fin (3602879701896397 / 36028797018963968)"
  using round64_eval [of "- 4" "0 + (3602879701896397 / 36028797018963968)" 7205759403792794]
  by (simp add: add64_def rne_def)

lemma c9a_sum2: "add64 (3602879701896397 / 36028797018963968) (3602879701896397 / 36028797018963968) = Fin (3602879701896397 / 18014398509481984)"
  using round64_eval [of "- 3" "(3602879701896397 / 36028797018963968) + (3602879701896397 / 36028797018963968)" 7205759403792794]
  by (simp add: add64_def rne_def)

lemma c9a_sum3: "add64 (3602879701896397 / 18014398509481984) (3602879701896397 / 36028797018963968) = Fin (1351079888211149 / 4503599627370496)"
  using round64_eval [of "- 2" "(3602879701896397 / 18014398509481984) + (3602879701896397 / 36028797018963968)" 5404319552844596]
  by (simp add: add64_def rne_def)

lemma c9a_sum4: "add64 (1351079888211149 / 4503599627370496) (5404319552844595 / 9007199254740992) = Fin (8106479329266893 / 9007199254740992)"
  using round64_eval [of "- 1" "(1351079888211149 / 4503599627370496) + (5404319552844595 / 9007199254740992)" 8106479329266893]
  by (simp add: add64_def rne_def)

lemma c9a_quot: "div64 (8106479329266893 / 9007199254740992) 4 = Fin (8106479329266893 / 36028797018963968)"
  using round64_eval [of "- 3" "(8106479329266893 / 9007199254740992) / 4" 8106479329266893]
  by (simp add: div64_def rne_def)

lemma c9a_prod: "mul64 (8106479329266893 / 36028797018963968) 100 = Fin (45 / 2)"
  using round64_eval [of 4 "(8106479329266893 / 36028797018963968) * 100" 6333186975989760]
  by (simp add: mul64_def rne_def)

lemma div_23_100: "div64 23 100 = Fin (8286623314361713 / 36028797018963968)"
  using round64_eval [of "- 3" "23 / 100" 8286623314361713]
  by (simp add: div64_def rne_def)

lemma c9b_sum2: "add64 (3602879701896397 / 36028797018963968) (5404319552844595 / 9007199254740992) = Fin (3152519739159347 / 4503599627370496)"
  using round64_eval [of "- 1" "(3602879701896397 / 36028797018963968) + (5404319552844595 / 9007199254740992)" 6305039478318694]
  by (simp add: add64_def rne_def)

lemma c9b_sum3: "add64 (3152519739159347 / 4503599627370496) (3602879701896397 / 36028797018963968) = Fin (7205759403792793 / 9007199254740992)"
  using round64_eval [of "- 1" "(3152519739159347 / 4503599627370496) + (3602879701896397 / 36028797018963968)" 7205759403792793]
  by (simp add: add64_def rne_def)

lemma c9b_sum4: "add64 (7205759403792793 / 9007199254740992) (3602879701896397 / 36028797018963968) = Fin (2026619832316723 / 2251799813685248)"
  using round64_eval [of "- 1" "(7205759403792793 / 9007199254740992) + (3602879701896397 / 36028797018963968)" 8106479329266892]
  by (simp add: add64_def rne_def)

lemma c9b_quot: "div64 (2026619832316723 / 2251799813685248) 4 = Fin (2026619832316723 / 9007199254740992)"
  using round64_eval [of "- 3" "(2026619832316723 / 2251799813685248) / 4" 8106479329266892]
  by (simp add: div64_def rne_def)

lemma c9b_prod: "mul64 (2026619832316723 / 9007199254740992) 100 = Fin (6333186975989759 / 281474976710656)"
  using round64_eval [of 4 "(2026619832316723 / 9007199254740992) * 100" 6333186975989759]
  by (simp add: mul64_def rne_def)

lemma div_22_100: "div64 22 100 = Fin (7926335344172073 / 36028797018963968)"
  using round64_eval [of "- 3" "22 / 100" 7926335344172073]
  by (simp add: div64_def rne_def)

lemma c6_sum1: "add64 0 4 = Fin (4)"
  using round64_eval [of 2 "0 + 4" 4503599627370496]
  by (simp add: add64_def rne_def)

lemma c6_sum2: "add64 4 4 = Fin (8)"
  using round64_eval [of 3 "4 + 4" 4503599627370496]
  by (simp add: add64_def rne_def)

lemma c6_sum3: "add64 8 4 = Fin (12)"
  using round64_eval [of 3 "8 + 4" 6755399441055744]
  by (simp add: add64_def rne_def)

lemma c6_sum4: "add64 12 4 = Fin (16)"
  using round64_eval [of 4 "12 + 4" 4503599627370496]
  by (simp add: add64_def rne_def)

lemma v40_mean: "div64 17 8 = Fin (17 / 8)"
  using round64_eval [of 1 "17 / 8" 4785074604081152]
  by (simp add: div64_def rne_def)

lemma v40_fifth: "div64 (17 / 8) 5 = Fin (7656119366529843 / 18014398509481984)"
  using round64_eval [of "- 2" "(17 / 8) / 5" 7656119366529843]
  by (simp add: div64_def rne_def)

lemma v40_rest: "add64 1 (- (7656119366529843 / 18014398509481984)) = Fin (2589569785738035 / 4503599627370496)"
  using round64_eval [of "- 1" "1 + (- (7656119366529843 / 18014398509481984))" 5179139571476070]
  by (simp add: add64_def rne_def)

lemma v40_prod: "mul64 (2589569785738035 / 4503599627370496) 100 = Fin (8092405580431359 / 140737488355328)"
  using round64_eval [of 5 "(2589569785738035 / 4503599627370496) * 100" 8092405580431359]
  by (simp add: mul64_def rne_def)

section \<open>The line parser and quoted fields\<close>

lemma csv_loop_no_quote:
  "\<forall>f \<in> set result. CHR ''\"'' \<notin> set f \<Longrightarrow> CHR ''\"'' \<notin> set current
   \<Longrightarrow> \<forall>f \<in> set (csv_loop result current inQuotes line). CHR ''\"'' \<notin> set f"
  by (induction result current inQuotes line rule: csv_loop.induct) auto

lemma csv_loop_inside:
  "CHR ''\"'' \<notin> set q \<Longrightarrow>
   csv_loop result current True (q @ rest) = csv_loop result (current @ q) True rest"
  by (induction q arbitrary: current) auto

lemma csv_loop_outside:
  "CHR ''\"'' \<notin> set a \<Longrightarrow> CHR '','' \<notin> set a \<Longrightarrow>
   csv_loop result current False (a @ rest) = csv_loop result (current @ a) False rest"
  by (induction a arbitrary: current) auto

lemma csv_loop_quoted:
  "CHR ''\"'' \<notin> set q \<Longrightarrow>
   csv_loop result current False (CHR ''\"'' # q @ CHR ''\"'' # rest)
     = csv_loop result (current @ q) False rest"
  by (simp add: csv_loop_inside)

text \<open>
  C8. For every line: no field that \<open>parseCSVLine\<close> returns contains a quote
  character (quotes are stripped). A quote switches the loop into the inside-literal
  mode and the next quote switches it back: from any state outside quotes, a quoted
  stretch \<open>q\<close>, whatever commas it holds, is added to the field being read as literal
  text and splits nothing. So a line \<open>a,"q",b\<close> whose middle field is quoted parses
  into exactly the three fields \<open>a\<close>, \<open>q\<close>, \<open>b\<close>, also when \<open>q\<close> contains commas.
\<close>

theorem parseCSVLine_quotes:
  "(\<forall>f \<in> set (parseCSVLine line). CHR ''\"'' \<notin> set f) \<and>
   (CHR ''\"'' \<notin> set q \<longrightarrow>
      csv_loop result current False (CHR ''\"'' # q @ CHR ''\"'' # rest)
        = csv_loop result (current @ q) False rest) \<and>
   (CHR ''\"'' \<notin> set a \<and> CHR '','' \<notin> set a \<and> CHR ''\"'' \<notin> set q \<and>
    CHR ''\"'' \<notin> set b \<and> CHR '','' \<notin> set b \<longrightarrow>
      parseCSVLine (a @ '','' @ ''\"'' @ q @ ''\"'' @ '','' @ b) = [a, q, b])"
proof (intro conjI impI)
  show "\<forall>f \<in> set (parseCSVLine line). CHR ''\"'' \<notin> set f"
    unfolding parseCSVLine_def by (rule csv_loop_no_quote) simp_all
next
  assume "CHR ''\"'' \<notin> set q"
  then show "csv_loop result current False (CHR ''\"'' # q @ CHR ''\"'' # rest)
        = csv_loop result (current @ q) False rest"
    by (rule csv_loop_quoted)
next
  assume h: "CHR ''\"'' \<notin> set a \<and> CHR '','' \<notin> set a \<and> CHR ''\"'' \<notin> set q \<and>
    CHR ''\"'' \<notin> set b \<and> CHR '','' \<notin> set b"
  have "parseCSVLine (a @ '','' @ ''\"'' @ q @ ''\"'' @ '','' @ b)
      = csv_loop [] a False (CHR '','' # CHR ''\"'' # q @ CHR ''\"'' # CHR '','' # b)"
    using h csv_loop_outside [of a "[]" "[]"] by (simp add: parseCSVLine_def)
  also have "\<dots> = csv_loop [a] [] False (CHR ''\"'' # q @ CHR ''\"'' # CHR '','' # b)"
    by simp
  also have "\<dots> = csv_loop [a] q False (CHR '','' # b)"
    using h csv_loop_quoted [of q "[a]" "[]"] by simp
  also have "\<dots> = csv_loop [a, q] b False []"
    using h csv_loop_outside [of b "[a, q]" "[]" "[]"] by simp
  finally show "parseCSVLine (a @ '','' @ ''\"'' @ q @ ''\"'' @ '','' @ b) = [a, q, b]"
    by simp
qed

theorem parseCSVLine_quotes_witness:
  "parseCSVLine ''2024-01-05,\"Crouching Tiger, Hidden Dragon\",4.5''
     = [''2024-01-05'', ''Crouching Tiger, Hidden Dragon'', ''4.5'']"
  using parseCSVLine_quotes [of "[]" "''Crouching Tiger, Hidden Dragon''" "[]" "[]" "[]"
      "''2024-01-05''" "''4.5''"]
  by simp

section \<open>The archetype decision list\<close>

text \<open>
  C1. For every entry list and every statistics record, \<open>classifyArchetype\<close> tries
  its five rules in a fixed order and the first rule that matches decides:
  \<open>totalFilms >= 100\<close> gives the marathoner; otherwise
  \<open>rewatches / totalFilms >= 0.3\<close> gives the comfort-rewinder; otherwise a rating
  volatility of the taste profile above 0.5 gives the chaos-curator; otherwise
  \<open>avgRating >= 4.0\<close> gives the prestige-purist; otherwise the result is the
  emotional-explorer. The quotient and the comparisons are those of JavaScript: the
  quotient is rounded to a double, \<open>0.3\<close> is the double nearest to it, and a
  comparison with \<open>NaN\<close> is false.
\<close>

theorem classifyArchetype_decision_list:
  "archetype_id (classifyArchetype entries stats) =
     (if js_ge (totalFilms stats) (Fin 100) then ''marathoner''
      else if js_ge (js_div (rewatches stats) (totalFilms stats)) (round64 0.3)
      then ''comfort-rewinder''
      else if js_gt (ratingVolatility (calculateTasteProfile entries)) (Fin 0.5)
      then ''chaos-curator''
      else if js_ge (avgRating stats) (Fin 4.0) then ''prestige-purist''
      else ''emotional-explorer'')"
  by (simp add: classifyArchetype_def archetypes_def rewatchRatio_def Let_def)

theorem classifyArchetype_decision_list_witness:
  "archetype_id (classifyArchetype []
      \<lparr> totalFilms = Fin 150, uniqueFilms = Fin 150, totalHours = Fin 300, avgRating = Fin 4.5,
        rewatches = Fin 75, rewatchPct = Fin 50 \<rparr>) = ''marathoner'' \<and>
   archetype_id (classifyArchetype []
      \<lparr> totalFilms = Fin 10, uniqueFilms = Fin 6, totalHours = Fin 20, avgRating = Fin 3.0,
        rewatches = Fin 4, rewatchPct = Fin 40 \<rparr>) = ''comfort-rewinder''"
  using classifyArchetype_decision_list [of "[]"
      "\<lparr> totalFilms = Fin 150, uniqueFilms = Fin 150, totalHours = Fin 300,
         avgRating = Fin 4.5, rewatches = Fin 75, rewatchPct = Fin 50 \<rparr>"]
    classifyArchetype_decision_list [of "[]"
      "\<lparr> totalFilms = Fin 10, uniqueFilms = Fin 6, totalHours = Fin 20,
         avgRating = Fin 3.0, rewatches = Fin 4, rewatchPct = Fin 40 \<rparr>"]
  by (simp add: js_ge_def lit_3_10 div_4_10)

section \<open>Division by the number of films\<close>






section \<open>Ratings and release years of parsed rows\<close>

lemma convert_row_fields:
  "(Rating (convert_row row) = None \<longleftrightarrow> raw_Rating row = None \<or> raw_Rating row = Some []) \<and>
   (\<forall>s. raw_Rating row = Some s \<and> s \<noteq> [] \<longrightarrow>
        Rating (convert_row row) = Some (parseFloat s)) \<and>
   (raw_Year row = None \<or> raw_Year row = Some [] \<longrightarrow> Year (convert_row row) = Fin 0)"
  by (cases "raw_Rating row"; cases "raw_Year row") (simp_all add: convert_row_def)

lemmas parse_number_defs =
  parseFloat_def parseInt_def is_space_def is_digit_def digits_val_def exponent_factor_def

text \<open>A literal beyond the largest double parses to \<open>Infinity\<close>.\<close>

lemma parseFloat_overflow: "parseFloat ''2e308'' = PInf"
proof -
  have "round64 (2 * 10 ^ 308) = PInf"
    using round64_overflow [of "2 * 10 ^ 308"] by simp
  then show ?thesis
    by (simp add: parse_number_defs)
qed

text \<open>
  The part of C7 that holds for every row: the rating is \<open>null\<close> exactly when the
  rating field is absent or empty, a field that is not empty gives \<open>parseFloat\<close> of
  its text, and the release year is 0 when its field is absent or empty.
\<close>

lemma parseCSV_fields:
  "length (parseCSV papa csvContent) = length (papa csvContent) \<and>
   (\<forall>i < length (papa csvContent).
      (let row = papa csvContent ! i; entry = parseCSV papa csvContent ! i
       in (Rating entry = None \<longleftrightarrow> raw_Rating row = None \<or> raw_Rating row = Some []) \<and>
          (\<forall>s. raw_Rating row = Some s \<and> s \<noteq> [] \<longrightarrow> Rating entry = Some (parseFloat s)) \<and>
          (raw_Year row = None \<or> raw_Year row = Some [] \<longrightarrow> Year entry = Fin 0)))"
  by (simp add: parseCSV_def Let_def convert_row_fields)

text \<open>
  C7. The claim asks for the rating \<open>null\<close> when the rating field is empty or not
  numeric. For the empty field \<open>parseCSV\<close> returns \<open>null\<close>, and the release year 0
  for an empty release-year field. For the rating field \<open>abc\<close>, which is not
  numeric, it returns the rating \<open>NaN\<close>: the field is tested for being empty only,
  and \<open>parseFloat\<close> of a text that is not a number is \<open>NaN\<close>.
\<close>

theorem parseCSV_non_numeric_rating:
  "parseFloat ''abc'' = NaN \<and>
   map (\<lambda>e. (Rating e, Year e))
     (parseCSV (\<lambda>_. [sample_row (Some ''abc'') (Some ''1995''), sample_row (Some []) (Some [])])
        [])
     = [(Some NaN, Fin 1995), (None, Fin 0)]"
proof -
  have "round64 1995 = Fin 1995"
    using round64_half_int [of 3990] by simp
  then show ?thesis
    by (simp add: parseCSV_def convert_row_def sample_row_def parse_number_defs)
qed

section \<open>Objects, sorting and the busiest bucket\<close>

lemma set_Object_entries: "set (Object_entries kvs) = set kvs"
  by (auto simp: Object_entries_def)

lemma Object_entries_Nil_iff: "Object_entries kvs = [] \<longleftrightarrow> kvs = []"
  by (metis set_Object_entries set_empty)

lemma sort_desc_Nil_iff: "sort_desc kvs = [] \<longleftrightarrow> kvs = []"
  by (metis length_0_conv length_sort sort_desc_def)

lemma set_sort_desc: "set (sort_desc kvs) = set kvs"
  by (simp add: sort_desc_def)

text \<open>The first element after the sort is an element with the largest count.\<close>

lemma hd_sort_desc:
  assumes "kvs \<noteq> []"
  shows "hd (sort_desc kvs) \<in> set kvs \<and> (\<forall>kv \<in> set kvs. snd kv \<le> snd (hd (sort_desc kvs)))"
proof -
  obtain x xs where x: "sort_desc kvs = x # xs"
    using assms by (cases "sort_desc kvs") (auto simp: sort_desc_Nil_iff)
  have "sorted (map (\<lambda>kv. - int (snd kv)) (sort_desc kvs))"
    unfolding sort_desc_def by (rule sorted_sort_key)
  then have "\<forall>kv \<in> set xs. - int (snd x) \<le> - int (snd kv)"
    by (simp add: x)
  moreover have "set kvs = insert x (set xs)"
    using set_sort_desc [of kvs] by (simp add: x)
  ultimately show ?thesis by (auto simp: x)
qed

lemma fst_incr: "map fst (incr key counts) = map fst counts"
  by (induction counts) (auto simp: incr_def)

lemma count_entry_keys:
  "map fst (fst (count_entry newDate mw entry)) = map fst (fst mw) \<and>
   map fst (snd (count_entry newDate mw entry)) = map fst (snd mw)"
  by (auto simp: count_entry_def Let_def fst_incr split: option.splits)

lemma foldl_count_entry_keys:
  "map fst (fst (foldl (count_entry newDate) mw entries)) = map fst (fst mw) \<and>
   map fst (snd (foldl (count_entry newDate) mw entries)) = map fst (snd mw)"
  by (induction entries arbitrary: mw) (simp_all add: count_entry_keys)

lemma foldl_count_entry_unparsed:
  "\<forall>e \<in> set entries. newDate (Date e) = None \<Longrightarrow>
   foldl (count_entry newDate) mw entries = mw"
  by (induction entries arbitrary: mw) (simp_all add: count_entry_def)

lemma monthNames_get:
  assumes "1 \<le> k" "k \<le> 12"
  shows "arr_get monthNames (k - 1) \<in> Some ` set monthNames"
proof -
  have len: "length monthNames = 12" by (simp add: monthNames_def)
  have "nat (k - 1) < length monthNames" using assms len by simp
  then have "monthNames ! nat (k - 1) \<in> set monthNames" by (rule nth_mem)
  then show ?thesis using assms len by (simp add: arr_get_def)
qed

lemma zero_month:
  "sort_desc (Object_entries (map (\<lambda>i. (i, 0::nat)) [1..12])) = map (\<lambda>i. (i, 0)) [1..12]"
  by (simp add: sort_desc_def Object_entries_def upto_rec1 sort_key_id_if_sorted comp_def)

lemma zero_day:
  "sort_desc (map (\<lambda>day. (day, 0::nat)) dayNames) = map (\<lambda>day. (day, 0)) dayNames"
  by (simp add: sort_desc_def dayNames_def)

text \<open>
  C10. For every entry list, the empty one and those without a date that parses
  included, \<open>calculateDistribution\<close> returns a busiest month and a busiest day that
  are not \<open>null\<close>: one of the 12 month names and one of the 7 day names, because the
  buckets exist with count 0 before the entries are counted. When no date parses,
  all counts are 0 and the result is \<open>Jan\<close> and \<open>Sunday\<close>.
\<close>

theorem calculateDistribution_busiest:
  "busiestMonth (calculateDistribution newDate entries) \<in> Some ` set monthNames \<and>
   busiestDay (calculateDistribution newDate entries) \<in> Some ` set dayNames \<and>
   ((\<forall>e \<in> set entries. newDate (Date e) = None) \<longrightarrow>
      busiestMonth (calculateDistribution newDate entries) = Some ''Jan'' \<and>
      busiestDay (calculateDistribution newDate entries) = Some ''Sunday'')"
proof (intro conjI impI)
  obtain m w where mw: "foldl (count_entry newDate)
      (map (\<lambda>i. (i, 0)) [1..12], map (\<lambda>day. (day, 0)) dayNames) entries = (m, w)"
    by (cases "foldl (count_entry newDate)
      (map (\<lambda>i. (i, 0)) [1..12], map (\<lambda>day. (day, 0)) dayNames) entries")
  have keys: "map fst m = [1..12]" "map fst w = dayNames"
    using foldl_count_entry_keys [of newDate
        "(map (\<lambda>i. (i, 0)) [1..12], map (\<lambda>day. (day, 0)) dayNames)" entries]
    by (simp_all add: mw comp_def)
  have m_ne: "sort_desc (Object_entries m) \<noteq> []"
    using keys(1) by (auto simp: sort_desc_Nil_iff Object_entries_def upto_rec1)
  then obtain kv rest where kv: "sort_desc (Object_entries m) = kv # rest"
    by (cases "sort_desc (Object_entries m)") auto
  have "kv \<in> set m"
    using kv set_sort_desc [of "Object_entries m"] set_Object_entries [of m] by auto
  then have "fst kv \<in> set [1..12]" using keys(1) by (metis image_eqI list.set_map)
  then have rng: "1 \<le> fst kv" "fst kv \<le> 12" by auto
  have bm: "busiestMonth (calculateDistribution newDate entries)
      = arr_get monthNames (fst kv - 1)"
    by (simp add: calculateDistribution_def mw kv Let_def)
  show "busiestMonth (calculateDistribution newDate entries) \<in> Some ` set monthNames"
    using rng by (simp add: bm monthNames_get)
  have "w \<noteq> []" using keys(2) by (auto simp: dayNames_def)
  then obtain dv drest where dv: "sort_desc w = dv # drest"
    by (cases "sort_desc w") (auto simp: sort_desc_Nil_iff)
  have "dv \<in> set w" using dv set_sort_desc [of w] by auto
  then have "fst dv \<in> set dayNames" using keys(2) by (metis image_eqI list.set_map)
  then show "busiestDay (calculateDistribution newDate entries) \<in> Some ` set dayNames"
    by (simp add: calculateDistribution_def mw dv Let_def)
next
  assume h: "\<forall>e \<in> set entries. newDate (Date e) = None"
  show "busiestMonth (calculateDistribution newDate entries) = Some ''Jan''"
    by (simp add: calculateDistribution_def foldl_count_entry_unparsed [OF h] Let_def zero_month)
       (simp add: upto_rec1 arr_get_def monthNames_def)
next
  assume h: "\<forall>e \<in> set entries. newDate (Date e) = None"
  show "busiestDay (calculateDistribution newDate entries) = Some ''Sunday''"
    by (simp add: calculateDistribution_def foldl_count_entry_unparsed [OF h] Let_def zero_day)
       (simp add: dayNames_def)
qed

lemma few_rated_busiest:
  "busiestMonth (calculateDistribution sample_newDate few_rated) = Some ''Mar''"
  "busiestDay (calculateDistribution sample_newDate few_rated) = Some ''Saturday''"
  by code_simp+

theorem calculateDistribution_busiest_witness:
  "busiestMonth (calculateDistribution sample_newDate []) = Some ''Jan'' \<and>
   busiestDay (calculateDistribution sample_newDate []) = Some ''Sunday'' \<and>
   busiestMonth (calculateDistribution sample_newDate [sample_entry ''not a date'' ''c1'' None])
     = Some ''Jan'' \<and>
   busiestMonth (calculateDistribution sample_newDate few_rated) = Some ''Mar'' \<and>
   busiestDay (calculateDistribution sample_newDate few_rated) = Some ''Saturday''"
  using calculateDistribution_busiest [of sample_newDate "[]"]
    calculateDistribution_busiest [of sample_newDate "[sample_entry ''not a date'' ''c1'' None]"]
    calculateDistribution_busiest [of sample_newDate few_rated]
  by (simp add: sample_entry_def sample_newDate_def few_rated_busiest)

section \<open>The target year\<close>

lemma map_of_bump:
  "map_of (bump y kvs) y' = (if y' = y then Some (count_of kvs y + 1) else map_of kvs y')"
  by (induction kvs) (auto simp: count_of_def)

lemma count_of_bump: "count_of (bump y kvs) y' = count_of kvs y' + (if y' = y then 1 else 0)"
  by (simp add: count_of_def map_of_bump)

lemma distinct_bump: "distinct (map fst kvs) \<Longrightarrow> distinct (map fst (bump y kvs))"
proof (induction kvs)
  case Nil
  then show ?case by simp
next
  case (Cons kv kvs)
  have "fst ` set (bump y kvs) \<subseteq> insert y (fst ` set kvs)"
    by (induction kvs) auto
  with Cons show ?case by auto
qed

lemma bump_not_Nil: "bump y kvs \<noteq> []"
  by (cases kvs) auto

lemma in_year_iff: "in_year newDate y = (\<lambda>e. year_of newDate e = Some y)"
  by (rule ext) (auto simp: in_year_def year_of_def split: option.splits)

text \<open>
  The counting loop: the keys stay distinct, and the count under a year grows by the
  number of entries whose date parses to that year.
\<close>

lemma foldl_count_year:
  "distinct (map fst acc) \<Longrightarrow>
   distinct (map fst (foldl (count_year newDate) acc entries)) \<and>
   (\<forall>y. count_of (foldl (count_year newDate) acc entries) y
         = count_of acc y + length (filter (\<lambda>e. year_of newDate e = Some y) entries))"
proof (induction entries arbitrary: acc)
  case Nil
  then show ?case by simp
next
  case (Cons e es)
  show ?case
  proof (cases "newDate (Date e)")
    case None
    then show ?thesis using Cons by (simp add: count_year_def year_of_def)
  next
    case (Some d)
    have "distinct (map fst (bump (getFullYear d) acc))"
      using Cons.prems by (rule distinct_bump)
    from Cons.IH [OF this] show ?thesis
      by (auto simp add: count_year_def Some year_of_def count_of_bump)
  qed
qed

lemma foldl_count_year_Nil_iff:
  "foldl (count_year newDate) acc entries = [] \<longleftrightarrow>
   acc = [] \<and> (\<forall>e \<in> set entries. newDate (Date e) = None)"
proof (induction entries arbitrary: acc)
  case Nil
  then show ?case by simp
next
  case (Cons e es)
  then show ?case
    by (cases "newDate (Date e)") (auto simp: count_year_def bump_not_Nil)
qed

lemma count_of_mem:
  "distinct (map fst kvs) \<Longrightarrow> kv \<in> set kvs \<Longrightarrow> count_of kvs (fst kv) = snd kv"
  by (cases kv) (simp add: count_of_def)

lemma count_of_le:
  assumes "distinct (map fst kvs)" "\<forall>kv \<in> set kvs. snd kv \<le> c"
  shows "count_of kvs y \<le> c"
proof (cases "map_of kvs y")
  case None
  then show ?thesis by (simp add: count_of_def)
next
  case (Some c')
  then have "(y, c') \<in> set kvs" by (rule map_of_SomeD)
  then show ?thesis using assms(2) Some by (auto simp: count_of_def)
qed

text \<open>
  C2. For every entry list: when no entry's date parses, \<open>detectTargetYear\<close>
  returns the year of the system clock. When some date parses, the year it returns
  has at least one entry and no year has more entries whose date parses to it:
  entries with a date that does not parse are counted for no year. \<open>filterByYear\<close>
  returns exactly the entries whose date parses to the given year, in the order of
  the input.
\<close>

theorem detectTargetYear_filterByYear:
  "((\<forall>e \<in> set entries. newDate (Date e) = None) \<longrightarrow>
      detectTargetYear newDate thisYear entries = thisYear) \<and>
   ((\<exists>e \<in> set entries. newDate (Date e) \<noteq> None) \<longrightarrow>
      0 < length (filterByYear newDate entries (detectTargetYear newDate thisYear entries)) \<and>
      (\<forall>y. length (filter (\<lambda>e. year_of newDate e = Some y) entries)
           \<le> length (filterByYear newDate entries
                        (detectTargetYear newDate thisYear entries)))) \<and>
   filterByYear newDate entries year = filter (\<lambda>e. year_of newDate e = Some year) entries"
proof (intro conjI impI)
  assume "\<forall>e \<in> set entries. newDate (Date e) = None"
  then have "foldl (count_year newDate) [] entries = []"
    by (simp add: foldl_count_year_Nil_iff)
  then show "detectTargetYear newDate thisYear entries = thisYear"
    by (simp add: detectTargetYear_def Object_entries_def)
next
  show flt: "filterByYear newDate entries year
      = filter (\<lambda>e. year_of newDate e = Some year) entries" for year
    by (simp add: filterByYear_def in_year_iff)
  assume ex: "\<exists>e \<in> set entries. newDate (Date e) \<noteq> None"
  define yc where "yc = foldl (count_year newDate) [] entries"
  define best where "best = hd (sort_desc (Object_entries yc))"
  have ne: "yc \<noteq> []" using ex by (auto simp: yc_def foldl_count_year_Nil_iff)
  have dist: "distinct (map fst yc)"
    and cnt: "\<And>y. count_of yc y = length (filter (\<lambda>e. year_of newDate e = Some y) entries)"
    using foldl_count_year [of "[]" newDate entries] by (simp_all add: yc_def count_of_def)
  have det: "detectTargetYear newDate thisYear entries = fst best"
    using ne
    by (simp add: detectTargetYear_def yc_def [symmetric] best_def Object_entries_Nil_iff)
  have best: "best \<in> set yc" "\<forall>kv \<in> set yc. snd kv \<le> snd best"
    using hd_sort_desc [of "Object_entries yc"] ne
    by (simp_all add: best_def Object_entries_Nil_iff set_Object_entries)
  have len: "length (filterByYear newDate entries (fst best)) = snd best"
    using count_of_mem [OF dist best(1)] by (simp add: flt cnt)
  show "\<forall>y. length (filter (\<lambda>e. year_of newDate e = Some y) entries)
           \<le> length (filterByYear newDate entries (detectTargetYear newDate thisYear entries))"
    using count_of_le [OF dist best(2)] by (simp add: det len cnt [symmetric])
  obtain e d where "e \<in> set entries" "newDate (Date e) = Some d" using ex by auto
  then have "0 < length (filter (\<lambda>e. year_of newDate e = Some (getFullYear d)) entries)"
    by (auto simp: length_greater_0_conv filter_empty_conv year_of_def)
  also have "\<dots> \<le> snd best"
    using count_of_le [OF dist best(2)] by (simp add: cnt [symmetric])
  finally show
    "0 < length (filterByYear newDate entries (detectTargetYear newDate thisYear entries))"
    by (simp add: det len)
qed

lemma two_years_detect: "detectTargetYear sample_newDate 2026 two_years = 2024"
  by code_simp

theorem detectTargetYear_filterByYear_witness:
  "detectTargetYear sample_newDate 2026 two_years = 2024 \<and>
   detectTargetYear sample_newDate 2026 [sample_entry ''not a date'' ''c1'' None] = 2026 \<and>
   filterByYear sample_newDate two_years 2024
     = map (\<lambda>n. sample_entry ''2024-03-09'' n None)
         [''b1'', ''b2'', ''b3'', ''b4'', ''b5'', ''b6'', ''b7'', ''b8'', ''b9'']"
  using detectTargetYear_filterByYear [of two_years sample_newDate 2026 2024]
    detectTargetYear_filterByYear [of "[sample_entry ''not a date'' ''c1'' None]"
      sample_newDate 2026 2024]
  by (simp add: two_years_detect)
     (simp add: two_years_def sample_entry_def sample_newDate_def year_of_def)

section \<open>The minimum number of entries\<close>

text \<open>
  C3. Let \<open>filtered\<close> be the entries of the detected year. When \<open>filtered\<close> has
  fewer than 5 entries, the analysis stops with an error and computes no statistics:
  the error \<open>Only n films found for year\<close>, unless the file had no entries at all,
  which is the no-data case with its own error \<open>No entries found\<close>. The two messages
  differ however the numbers are printed. With 5 or more entries in \<open>filtered\<close> no
  error is raised and the statistics, the distribution and the archetype of
  \<open>filtered\<close> are computed.
\<close>

theorem handleFileSelect_minimum:
  "(let entries = parseCSV papa diaryContent;
        year = detectTargetYear newDate thisYear entries;
        filtered = filterByYear newDate entries year;
        only = [Lit ''Only '', Val (js_of_nat (length filtered)), Lit '' films found for '',
                Val (Fin (of_int year))]
    in (length filtered < 5 \<longrightarrow>
          handleFileSelect papa newDate thisYear diaryContent
            = (if entries = [] then Inl [Lit ''No entries found''] else Inl only)) \<and>
       render sh only \<noteq> render sh [Lit ''No entries found''] \<and>
       (5 \<le> length filtered \<longrightarrow>
          handleFileSelect papa newDate thisYear diaryContent
            = Inr \<lparr> an_entries = filtered, an_year = year, an_stats = calculateStats filtered,
                    an_distribution = calculateDistribution newDate filtered,
                    an_archetype = classifyArchetype filtered (calculateStats filtered) \<rparr>))"
  by (auto simp add: handleFileSelect_def Let_def render_def filterByYear_def)

theorem handleFileSelect_minimum_witness:
  "handleFileSelect (\<lambda>_. [sample_row None None, sample_row None None, sample_row None None])
       sample_newDate 2026 []
     = Inl [Lit ''Only '', Val (Fin 3), Lit '' films found for '', Val (Fin 2024)] \<and>
   handleFileSelect (\<lambda>_. []) sample_newDate 2026 [] = Inl [Lit ''No entries found''] \<and>
   map_sum id (\<lambda>r. (an_year r, length (an_entries r)))
     (handleFileSelect (\<lambda>_. [sample_row None None, sample_row None None, sample_row None None,
                               sample_row None None, sample_row None None])
        sample_newDate 2026 [])
     = Inr (2024, 5)"
  using handleFileSelect_minimum [of
      "\<lambda>_. [sample_row None None, sample_row None None, sample_row None None]"
      "[]" sample_newDate 2026 "\<lambda>_. []"]
    handleFileSelect_minimum [of "\<lambda>_. []" "[]" sample_newDate 2026 "\<lambda>_. []"]
    handleFileSelect_minimum [of
      "\<lambda>_. [sample_row None None, sample_row None None, sample_row None None,
           sample_row None None, sample_row None None]" "[]" sample_newDate 2026 "\<lambda>_. []"]
  by (simp add: parseCSV_def convert_row_def sample_row_def sample_newDate_def
      detectTargetYear_def count_year_def Object_entries_def sort_desc_def filterByYear_def
      in_year_def js_of_nat_def Let_def)

section \<open>The average rating\<close>

lemma rated_values_filter:
  "rated_values entries = map (\<lambda>e. num_of_rating (Rating e)) (filter is_rated entries)"
  by (induction entries) (auto simp: is_rated_def isNaN_def split: option.splits)

lemma foldl_ratings:
  "foldl (\<lambda>sum e. js_add sum (num_of_rating (Rating e))) a (filter is_rated entries)
     = foldl js_add a (rated_values entries)"
  by (simp add: rated_values_filter foldl_map)

lemma avgRating_rated_values:
  "avgRating (calculateStats entries) =
     (if rated_values entries = [] then Fin 0
      else js_div
             (Math_round
                (js_mul
                   (js_div (foldl js_add (Fin 0) (rated_values entries))
                      (js_of_nat (length (rated_values entries))))
                   (Fin 100)))
             (Fin 100))"
  by (simp add: calculateStats_def Let_def foldl_ratings) (simp add: rated_values_filter)

lemma half_step_half_int:
  assumes "half_step r"
  obtains k :: int where "\<bar>k\<bar> \<le> 10" "r = Fin (of_int k / 2)"
proof (cases r)
  case (Fin a)
  with assms have "half_step (Fin a)" by simp
  then have a: "\<bar>a\<bar> \<le> 5" "of_int \<lfloor>2 * a\<rfloor> = 2 * a"
    by (simp_all only: half_step.simps)
  have "\<bar>2 * a\<bar> \<le> of_int 10" using a(1) by simp
  then have "\<bar>of_int \<lfloor>2 * a\<rfloor> :: real\<bar> \<le> of_int 10" by (simp only: a(2))
  then have "\<bar>\<lfloor>2 * a\<rfloor>\<bar> \<le> 10" by (simp only: of_int_abs [symmetric] of_int_le_iff)
  moreover have "real_of_int \<lfloor>2 * a\<rfloor> / 2 = a" using a(2) by linarith
  then have "r = Fin (of_int \<lfloor>2 * a\<rfloor> / 2)" by (simp only: Fin)
  ultimately show ?thesis by (rule that)
qed (use assms in simp_all)

text \<open>
  Adding ratings of the half-star scale from the left is exact as long as the sum
  stays below \<open>2 ^ 52\<close>: every partial sum is a multiple of one half and a double.
\<close>

lemma foldl_add_half_steps:
  "\<forall>r \<in> set rs. half_step r \<Longrightarrow> \<bar>K\<bar> + 10 * int (length rs) < 2 ^ 53 \<Longrightarrow>
   foldl js_add (Fin (of_int K / 2)) rs = Fin (of_int K / 2 + sum_list (map fin_val rs))"
proof (induction rs arbitrary: K)
  case Nil
  then show ?case by simp
next
  case (Cons r rs)
  from Cons.prems(1) have "half_step r" by simp
  then obtain k :: int where k: "\<bar>k\<bar> \<le> 10" "r = Fin (of_int k / 2)"
    by (rule half_step_half_int)
  have bound: "\<bar>K + k\<bar> + 10 * int (length rs) < 2 ^ 53"
    using Cons.prems(2) k(1) by simp
  then have "\<bar>K + k\<bar> < 2 ^ 53" by simp
  then have "round64 (of_int (K + k) / 2) = Fin (of_int (K + k) / 2)"
    by (rule round64_half_int)
  then have step: "js_add (Fin (of_int K / 2)) r = Fin (of_int (K + k) / 2)"
    by (simp add: k(2) add64_def add_divide_distrib)
  have "foldl js_add (Fin (of_int (K + k) / 2)) rs
      = Fin (of_int (K + k) / 2 + sum_list (map fin_val rs))"
    using Cons.prems(1) bound by (intro Cons.IH) simp_all
  then show ?case
    by (simp add: step) (simp add: k(2) add_divide_distrib)
qed

lemma sum_half_steps:
  assumes "\<forall>r \<in> set rs. half_step r" "length rs < 2 ^ 32"
  shows "foldl js_add (Fin 0) rs = Fin (sum_list (map fin_val rs))"
proof -
  have "int (length rs) < 2 ^ 32" using assms(2) by simp
  then have "\<bar>0::int\<bar> + 10 * int (length rs) < 2 ^ 53" by simp
  from foldl_add_half_steps [OF assms(1) this] show ?thesis by simp
qed

lemma length_rated_values: "length (rated_values entries) \<le> length entries"
  by (simp add: rated_values_filter)






lemma tenths_avg:
  "avgRating (calculateStats tenths) = js_div (Fin 23) (Fin 100)"
  "avgRating (calculateStats tenths_permuted) = js_div (Fin 22) (Fin 100)"
  by (simp_all add: avgRating_rated_values tenths_def tenths_permuted_def sample_entry_def
      lit_1_10 lit_6_10 js_of_nat_def
      c9a_sum1 c9a_sum2 c9a_sum3 c9a_sum4 c9a_quot c9a_prod
      c9b_sum2 c9b_sum3 c9b_sum4 c9b_quot c9b_prod)

text \<open>
  C9, as the claim states it, fails: the entries with the ratings 0.1, 0.1, 0.1,
  0.6 have the average 0.23, and the same entries in the order 0.1, 0.6, 0.1, 0.1
  have the average 0.22. The sum is built from the left in doubles, and the two
  orders give sums that differ in the last bit, on either side of 0.9.
\<close>

theorem avgRating_order_counterexample:
  "mset tenths_permuted = mset tenths \<and>
   avgRating (calculateStats tenths) = js_div (Fin 23) (Fin 100) \<and>
   avgRating (calculateStats tenths_permuted) = js_div (Fin 22) (Fin 100) \<and>
   avgRating (calculateStats tenths_permuted) \<noteq> avgRating (calculateStats tenths)"
  by (simp add: tenths_avg div_23_100 div_22_100)
     (simp add: tenths_def tenths_permuted_def)

lemma rated_values_mset:
  "mset entries = mset entries' \<Longrightarrow> mset (rated_values entries) = mset (rated_values entries')"
  by (simp add: rated_values_filter)

text \<open>
  C9, amended. For every entry list of fewer than \<open>2 ^ 32\<close> entries (the bound of
  an array) whose ratings, where they are neither \<open>null\<close> nor \<open>NaN\<close>, are on the
  half-star scale, and every permutation of it, \<open>calculateStats\<close> returns the same
  average rating.
\<close>

theorem avgRating_order_invariant:
  assumes perm: "mset entries = mset entries'"
    and scale: "\<forall>e \<in> set entries. is_rated e \<longrightarrow> half_step (num_of_rating (Rating e))"
    and len: "length entries < 2 ^ 32"
  shows "avgRating (calculateStats entries) = avgRating (calculateStats entries')"
proof -
  have ms: "mset (rated_values entries) = mset (rated_values entries')"
    using perm by (rule rated_values_mset)
  have hs: "\<forall>r \<in> set (rated_values entries). half_step r"
    using scale by (auto simp: rated_values_filter)
  then have hs': "\<forall>r \<in> set (rated_values entries'). half_step r"
    using ms by (metis set_mset_mset)
  have n: "length (rated_values entries') = length (rated_values entries)"
    using ms by (metis size_mset)
  have l: "length (rated_values entries) < 2 ^ 32"
    using length_rated_values [of entries] len by simp
  have "sum_list (map fin_val (rated_values entries'))
      = sum_list (map fin_val (rated_values entries))"
    using ms by (metis mset_map sum_mset_sum_list)
  moreover have "foldl js_add (Fin 0) (rated_values entries)
      = Fin (sum_list (map fin_val (rated_values entries)))"
    using hs l by (rule sum_half_steps)
  moreover have "foldl js_add (Fin 0) (rated_values entries')
      = Fin (sum_list (map fin_val (rated_values entries')))"
    using hs' l by (intro sum_half_steps) (simp_all add: n)
  moreover have "rated_values entries' = [] \<longleftrightarrow> rated_values entries = []"
    using n by (metis length_0_conv)
  ultimately show ?thesis
    by (simp add: avgRating_rated_values n)
qed

theorem avgRating_order_invariant_witness:
  "mset rated_sample = mset (rev rated_sample) \<and>
   avgRating (calculateStats rated_sample) = avgRating (calculateStats (rev rated_sample))"
  using avgRating_order_invariant [of rated_sample "rev rated_sample"]
  by (simp add: rated_sample_def sample_entry_def is_rated_def isNaN_def)

section \<open>The taste profile\<close>

text \<open>
  The part of C6 that holds for every entry list: with fewer than 5 ratings that
  are not \<open>null\<close> the result is the neutral record.
\<close>

lemma calculateTasteProfile_few:
  "length (filter (\<lambda>e. Rating e \<noteq> None) entries) < 5 \<Longrightarrow>
   calculateTasteProfile entries =
     \<lparr> stabilityScore = Fin 50, ratingVolatility = Fin 0.5, isContrarian = False,
       contrarianScore = Fin 0 \<rparr>"
  by (simp add: calculateTasteProfile_def)

text \<open>
  A run of the arithmetic in doubles: for the mean 2.125 the contrarian score is
  57, where \<open>(1 - 2.125 / 5) * 100 = 57.5\<close> in exact arithmetic.
\<close>

lemma score_sample_contrarianScore:
  "contrarianScore (calculateTasteProfile score_sample) = Fin 57"
proof -
  let ?rs = "replicate 5 (Fin 0.5) @ [Fin 4.5, Fin 5, Fin 5]"
  have rs: "map (\<lambda>e. num_of_rating (Rating e)) (filter (\<lambda>e. Rating e \<noteq> None) score_sample) = ?rs"
    by (simp add: score_sample_def sample_entry_def)
  have "\<forall>r \<in> set ?rs. half_step r" by simp
  moreover have "length ?rs < 2 ^ 32" by simp
  ultimately have "foldl js_add (Fin 0) ?rs = Fin (sum_list (map fin_val ?rs))"
    by (rule sum_half_steps)
  then have sum: "foldl js_add (Fin 0) ?rs = Fin 17"
    by (simp add: sum_list_replicate)
  have len: "length (filter (\<lambda>e. Rating e \<noteq> None) score_sample) = 8"
    using arg_cong [OF rs, of length] by simp
  show ?thesis
    unfolding calculateTasteProfile_def Let_def length_map rs sum len
    by (simp add: js_of_nat_def js_sub_def v40_mean v40_fifth v40_rest v40_prod)
qed

lemma nan_rows_parsed:
  "parseCSV (\<lambda>_. nan_rows) [] =
     [(sample_entry ''2024-03-09'' ''Heat'' (Some (Fin 4))) \<lparr> Year := Fin 0 \<rparr>,
      (sample_entry ''2024-03-09'' ''Heat'' (Some (Fin 4))) \<lparr> Year := Fin 0 \<rparr>,
      (sample_entry ''2024-03-09'' ''Heat'' (Some (Fin 4))) \<lparr> Year := Fin 0 \<rparr>,
      (sample_entry ''2024-03-09'' ''Heat'' (Some (Fin 4))) \<lparr> Year := Fin 0 \<rparr>,
      (sample_entry ''2024-03-09'' ''Heat'' (Some NaN)) \<lparr> Year := Fin 0 \<rparr>]"
proof -
  have "round64 4 = Fin 4"
    using round64_half_int [of 8] by simp
  then show ?thesis
    by (simp add: parseCSV_def nan_rows_def convert_row_def sample_row_def sample_entry_def
        parse_number_defs)
qed

text \<open>
  C6. The claim asks for the neutral record whenever fewer than 5 entries are
  rated. Five rows with the rating fields 4, 4, 4, 4 and \<open>abc\<close> give five entries of
  which four are rated by the test of \<open>calculateStats\<close> (not \<open>null\<close> and not
  \<open>NaN\<close>). \<open>calculateTasteProfile\<close> tests for \<open>null\<close> only, counts five, and
  computes: the mean and the deviation are \<open>NaN\<close>, and the profile it returns has
  \<open>NaN\<close> for the stability, the volatility and the contrarian score.
\<close>

theorem calculateTasteProfile_counts_NaN:
  "length (filter is_rated (parseCSV (\<lambda>_. nan_rows) [])) = 4 \<and>
   calculateTasteProfile (parseCSV (\<lambda>_. nan_rows) []) =
     \<lparr> stabilityScore = NaN, ratingVolatility = NaN, isContrarian = False,
       contrarianScore = NaN \<rparr>"
  by (simp add: nan_rows_parsed sample_entry_def is_rated_def isNaN_def
      calculateTasteProfile_def js_of_nat_def js_sub_def Math_min_def js_gt_def Let_def
      lit_6_10 c6_sum1 c6_sum2 c6_sum3 c6_sum4)

end
